theory Spec2Isabelle
  imports Complex_Main "HOL-Library.AList"
begin

section \<open>JavaScript values that cross the wire\<close>

text \<open>
  The servers read JSON bodies and test some of their fields for truthiness or for being
  \<^verbatim>\<open>undefined\<close>. A parsed JSON value is a \<open>json\<close>; a property that may be absent is a
  \<open>json option\<close>, with \<open>None\<close> for \<^verbatim>\<open>undefined\<close>. A JSON number is kept as the rational
  it denotes: only whether it is zero is ever looked at.

  Strings are \<open>char list\<close>s of bytes; the fixed Chinese texts of the source are written as
  their UTF-8 bytes. Equality and prefix tests on well-formed text agree between the UTF-16
  code units JavaScript compares and these bytes.
\<close>

datatype json =
    JNull
  | JBool bool
  | JNum rat
  | JStr string
  | JArr "json list"
  | JObj "(string \<times> json) list"

fun truthy :: "json option \<Rightarrow> bool" where
  "truthy None = False"
| "truthy (Some JNull) = False"
| "truthy (Some (JBool b)) = b"
| "truthy (Some (JNum n)) = (n \<noteq> 0)"
| "truthy (Some (JStr s)) = (s \<noteq> [])"
| "truthy (Some (JArr xs)) = True"
| "truthy (Some (JObj kvs)) = True"

text \<open>\<^verbatim>\<open>a || b\<close>: the left operand when it is truthy, otherwise the right one.\<close>

definition js_or :: "json option \<Rightarrow> json option \<Rightarrow> json option" where
  "js_or a b = (if truthy a then a else b)"

text \<open>\<^verbatim>\<open>x || ''\<close> for an argument the tool schema types as a string.\<close>

definition or_empty :: "string option \<Rightarrow> string" where
  "or_empty x = (case x of None \<Rightarrow> [] | Some v \<Rightarrow> v)"

text \<open>A template literal prints an absent value as the text \<^verbatim>\<open>undefined\<close>.\<close>

definition interpolate :: "string option \<Rightarrow> string" where
  "interpolate x = (case x of None \<Rightarrow> ''undefined'' | Some v \<Rightarrow> v)"

text \<open>\<^verbatim>\<open>s.startsWith(p)\<close>.\<close>

definition startsWith :: "string \<Rightarrow> string \<Rightarrow> bool" where
  "startsWith s p \<longleftrightarrow> take (length p) s = p"

text \<open>
  \<^verbatim>\<open>toLowerCase()\<close> is a built-in of the JavaScript runtime, not code of the repository.
  On a string of ASCII characters it turns the letters \<open>A\<close> to \<open>Z\<close> into \<open>a\<close> to \<open>z\<close> and
  keeps every other character (\<open>toLowerCase_ascii\<close>). On a string with a character
  outside ASCII (a byte of \<open>0x80\<close> or more in UTF-8) the result is given by the Unicode case
  tables of the runtime; it is the parameter \<open>unicode_lower\<close>, about which nothing is
  assumed, so that what is proved holds whatever the runtime does to such strings.
\<close>

definition is_ascii :: "char \<Rightarrow> bool" where
  "is_ascii c \<longleftrightarrow> of_char c < (128::nat)"

definition toLowerCase_ascii :: "char \<Rightarrow> char" where
  "toLowerCase_ascii c =
     (case map_of (zip ''ABCDEFGHIJKLMNOPQRSTUVWXYZ'' ''abcdefghijklmnopqrstuvwxyz'') c of
        None \<Rightarrow> c
      | Some l \<Rightarrow> l)"

definition toLowerCase :: "(string \<Rightarrow> string) \<Rightarrow> string \<Rightarrow> string" where
  "toLowerCase unicode_lower s =
     (if list_all is_ascii s then map toLowerCase_ascii s else unicode_lower s)"

text \<open>\<^verbatim>\<open>replace(/\\/g, '/')\<close>: every backslash (byte \<open>0x5C\<close>) becomes a forward slash.\<close>

definition replace_backslashes :: "string \<Rightarrow> string" where
  "replace_backslashes s = map (\<lambda>c. if c = CHR 0x5C then CHR ''/'' else c) s"

section \<open>Data model of the dialog server\<close>

text \<open>
  \<^verbatim>\<open>Attachment\<close>, the resolution payload \<^verbatim>\<open>{ shouldContinue, userInput, attachments? }\<close>
  and \<^verbatim>\<open>DialogHistoryItem\<close>, with the fields at their declared TypeScript types. Field
  names carry a prefix where two interfaces share a name.
\<close>

datatype attachment_type = Image | File | Code

record attachment =
  att_type :: attachment_type
  att_name :: string
  att_content :: string
  att_mimeType :: "string option"

record dialog_result =
  shouldContinue :: bool
  userInput :: string
  attachments :: "attachment list option"

record dialog_history_item =
  h_timestamp :: nat
  h_reason :: string
  h_userInput :: string
  h_continued :: bool

text \<open>
  Who is suspended on a pending dialog: the HTTP response of a \<^verbatim>\<open>POST /dialog\<close>, or a
  \<^verbatim>\<open>tools/call\<close> invocation of \<^verbatim>\<open>handleMCPRequest\<close> awaiting \<^verbatim>\<open>callDialogInternal\<close>,
  which will answer under the id of its request.
\<close>

datatype waiter = DialogEndpoint | ToolsCall "json option"

text \<open>
  \<^verbatim>\<open>PendingDialog\<close>. Its \<^verbatim>\<open>resolve\<close> member is a closure; the record holds what the
  closure captured besides \<open>reason\<close> and \<open>workspace\<close>: the array \<^verbatim>\<open>history\<close> read when the
  dialog was created (\<open>pd_history\<close>) and the continuation it wakes (\<open>pd_waiter\<close>).
\<close>

record pending_dialog =
  pd_id :: string
  pd_reason :: string
  pd_workspace :: string
  pd_history :: "dialog_history_item list"
  pd_waiter :: waiter

text \<open>
  The fields of \<^verbatim>\<open>MCPServer\<close> that the request handlers read or write.
  \<^verbatim>\<open>pendingDialogs\<close> is a JavaScript \<^verbatim>\<open>Map\<close>, which iterates in insertion order, so it is
  an association list: \<^verbatim>\<open>set\<close> is \<open>AList.update\<close> (an existing key keeps its place, a new
  one goes last) and \<^verbatim>\<open>delete\<close> is \<open>AList.delete\<close>. The two workspace-keyed maps are only
  ever looked up by key. \<open>onDialogRequest\<close> tells whether a handler is installed.
\<close>

record server_state =
  pendingDialogs :: "(string \<times> pending_dialog) list"
  dialogHistory :: "string \<rightharpoonup> dialog_history_item list"
  dialogCounts :: "string \<rightharpoonup> nat"
  onDialogRequest :: bool
  version :: string

definition new_MCPServer :: server_state where
  "new_MCPServer =
     \<lparr>pendingDialogs = [], dialogHistory = Map.empty, dialogCounts = Map.empty,
      onDialogRequest = False, version = ''1.5.0''\<rparr>"

definition setVersion :: "string \<Rightarrow> server_state \<Rightarrow> server_state" where
  "setVersion v s = s\<lparr>version := v\<rparr>"

definition setDialogRequestHandler :: "server_state \<Rightarrow> server_state" where
  "setDialogRequestHandler s = s\<lparr>onDialogRequest := True\<rparr>"

section \<open>Creating a dialog\<close>

text \<open>
  What creating a dialog computes: the dialog, the history array and the count. When a
  handler is installed (\<open>cr_notified\<close>) these three are exactly the arguments of the call
  \<^verbatim>\<open>this.onDialogRequest(dialog, history, currentCount)\<close>, which is the last statement; the
  state returned with them is the state the handler finds.
\<close>

record dialog_created =
  cr_dialog :: pending_dialog
  cr_history :: "dialog_history_item list"
  cr_count :: nat
  cr_notified :: bool

text \<open>
  \<^verbatim>\<open>callDialogInternal(reason, workspace)\<close>. The id is
  \<^verbatim>\<open>`dialog_${Date.now()}_${Math.random().toString(36).substr(2, 9)}`\<close>; the text that
  follows \<^verbatim>\<open>dialog_\<close> comes from the clock and the random generator and is the input
  \<open>stamp\<close>. The continuation \<open>k\<close> that awaits the returned promise is an input as well.
\<close>

definition callDialogInternal ::
  "string \<Rightarrow> string \<Rightarrow> string \<Rightarrow> waiter \<Rightarrow> server_state \<Rightarrow> dialog_created \<times> server_state" where
  "callDialogInternal reason workspace stamp k s =
     (let dialogId = ''dialog_'' @ stamp;
          currentCount = (case dialogCounts s workspace of None \<Rightarrow> 0 | Some c \<Rightarrow> c) + 1;
          s1 = s\<lparr>dialogCounts := (dialogCounts s)(workspace \<mapsto> currentCount)\<rparr>;
          history = (case dialogHistory s1 workspace of None \<Rightarrow> [] | Some h \<Rightarrow> h);
          dialog = \<lparr>pd_id = dialogId, pd_reason = reason, pd_workspace = workspace,
                    pd_history = history, pd_waiter = k\<rparr>;
          s2 = s1\<lparr>pendingDialogs := AList.update dialogId dialog (pendingDialogs s1)\<rparr>
      in (\<lparr>cr_dialog = dialog, cr_history = history, cr_count = currentCount,
           cr_notified = onDialogRequest s2\<rparr>, s2))"

text \<open>
  \<^verbatim>\<open>POST /dialog\<close>. The body is \<open>None\<close> when \<^verbatim>\<open>JSON.parse\<close> or the destructuring throws
  (answered with status 400), otherwise the pair \<^verbatim>\<open>{ reason, workspace }\<close> of strings
  that \<^verbatim>\<open>callDialog\<close> of the SSE server sends. The handler
  repeats the statements of \<^verbatim>\<open>callDialogInternal\<close>; the history is written in the
  \<^verbatim>\<open>then\<close> callback of the promise, which runs before any other request is served.
\<close>

definition post_dialog ::
  "(string \<times> string) option \<Rightarrow> string \<Rightarrow> server_state \<Rightarrow> dialog_created option \<times> server_state" where
  "post_dialog body stamp s =
     (case body of
        None \<Rightarrow> (None, s)
      | Some (reason, workspace) \<Rightarrow>
          (let dialogId = ''dialog_'' @ stamp;
               currentCount = (case dialogCounts s workspace of None \<Rightarrow> 0 | Some c \<Rightarrow> c) + 1;
               s1 = s\<lparr>dialogCounts := (dialogCounts s)(workspace \<mapsto> currentCount)\<rparr>;
               history = (case dialogHistory s1 workspace of None \<Rightarrow> [] | Some h \<Rightarrow> h);
               dialog = \<lparr>pd_id = dialogId, pd_reason = reason, pd_workspace = workspace,
                         pd_history = history, pd_waiter = DialogEndpoint\<rparr>;
               s2 = s1\<lparr>pendingDialogs := AList.update dialogId dialog (pendingDialogs s1)\<rparr>
           in (Some \<lparr>cr_dialog = dialog, cr_history = history, cr_count = currentCount,
                     cr_notified = onDialogRequest s2\<rparr>, s2)))"

section \<open>Resolving a dialog\<close>

text \<open>
  The body of the \<^verbatim>\<open>resolve\<close> closure (and of the \<^verbatim>\<open>then\<close> callback of \<^verbatim>\<open>POST /dialog\<close>):
  the history item is appended to the array captured at creation and the result is stored
  under the dialog's workspace. \<open>now\<close> is \<^verbatim>\<open>Date.now()\<close>.
\<close>

definition resolve_closure :: "pending_dialog \<Rightarrow> dialog_result \<Rightarrow> nat \<Rightarrow> server_state \<Rightarrow> server_state" where
  "resolve_closure pending result now s =
     (let historyItem = \<lparr>h_timestamp = now, h_reason = pd_reason pending,
                         h_userInput = userInput result, h_continued = shouldContinue result\<rparr>;
          updatedHistory = pd_history pending @ [historyItem]
      in s\<lparr>dialogHistory := (dialogHistory s)(pd_workspace pending \<mapsto> updatedHistory)\<rparr>)"

text \<open>
  \<^verbatim>\<open>respondToDialog(dialogId, shouldContinue, userInput, attachments)\<close> returns the
  boolean of the source, the continuation it woke together with the payload handed to it
  (if any), and the new state.
\<close>

definition respondToDialog ::
  "string \<Rightarrow> bool \<Rightarrow> string \<Rightarrow> attachment list option \<Rightarrow> nat \<Rightarrow> server_state
     \<Rightarrow> bool \<times> (waiter \<times> dialog_result) option \<times> server_state" where
  "respondToDialog dialogId sc ui atts now s =
     (case map_of (pendingDialogs s) dialogId of
        Some pending \<Rightarrow>
          (let result = \<lparr>shouldContinue = sc, userInput = ui, attachments = atts\<rparr>;
               s1 = resolve_closure pending result now s;
               s2 = s1\<lparr>pendingDialogs := AList.delete dialogId (pendingDialogs s1)\<rparr>
           in (True, Some (pd_waiter pending, result), s2))
      | None \<Rightarrow> (False, None, s))"

text \<open>
  \<^verbatim>\<open>POST /respond\<close>. The parsed body, \<open>None\<close> when parsing throws. \<open>rb_id\<close> and
  \<open>rb_dialogId\<close> are \<^verbatim>\<open>data.id\<close> and \<^verbatim>\<open>data.dialogId\<close> as they arrive; the payload fields
  are at their declared types. The keys of \<^verbatim>\<open>pendingDialogs\<close> are strings, so
  \<^verbatim>\<open>Map.get\<close> and \<^verbatim>\<open>Map.delete\<close> find an entry only for a string key.
\<close>

record respond_body =
  rb_id :: "json option"
  rb_dialogId :: "json option"
  rb_shouldContinue :: bool
  rb_userInput :: string
  rb_attachments :: "attachment list option"

text \<open>Status 200 \<^verbatim>\<open>{success: true}\<close>, 404 \<^verbatim>\<open>{error: 'Dialog not found'}\<close>, 400 \<^verbatim>\<open>{error: 'Invalid request'}\<close>.\<close>

datatype respond_reply = RespondSuccess | RespondNotFound | RespondInvalid

definition pendingDialogs_get :: "(string \<times> pending_dialog) list \<Rightarrow> json option \<Rightarrow> pending_dialog option" where
  "pendingDialogs_get m key = (case key of Some (JStr k) \<Rightarrow> map_of m k | _ \<Rightarrow> None)"

definition pendingDialogs_delete :: "json option \<Rightarrow> (string \<times> pending_dialog) list \<Rightarrow> (string \<times> pending_dialog) list" where
  "pendingDialogs_delete key m = (case key of Some (JStr k) \<Rightarrow> AList.delete k m | _ \<Rightarrow> m)"

definition post_respond ::
  "respond_body option \<Rightarrow> nat \<Rightarrow> server_state
     \<Rightarrow> respond_reply \<times> (waiter \<times> dialog_result) option \<times> server_state" where
  "post_respond body now s =
     (case body of
        None \<Rightarrow> (RespondInvalid, None, s)
      | Some data \<Rightarrow>
          (let dialogId = js_or (rb_id data) (rb_dialogId data) in
           case pendingDialogs_get (pendingDialogs s) dialogId of
             Some pending \<Rightarrow>
               (let result = \<lparr>shouldContinue = rb_shouldContinue data,
                               userInput = rb_userInput data,
                               attachments = rb_attachments data\<rparr>;
                    s1 = resolve_closure pending result now s;
                    s2 = s1\<lparr>pendingDialogs := pendingDialogs_delete dialogId (pendingDialogs s1)\<rparr>
                in (RespondSuccess, Some (pd_waiter pending, result), s2))
           | None \<Rightarrow> (RespondNotFound, None, s)))"

section \<open>Listing pending dialogs and claiming them\<close>

text \<open>The entries \<^verbatim>\<open>{ id, reason, workspace }\<close> that the listing endpoints serialise.\<close>

record pending_info =
  pi_id :: string
  pi_reason :: string
  pi_workspace :: string

text \<open>\<^verbatim>\<open>x.toLowerCase().replace(/\\/g, '/')\<close>, as applied to both paths before comparing.\<close>

definition normalize_path :: "(string \<Rightarrow> string) \<Rightarrow> string \<Rightarrow> string" where
  "normalize_path unicode_lower x = replace_backslashes (toLowerCase unicode_lower x)"

text \<open>The predicate of the \<^verbatim>\<open>filter\<close> callback of \<^verbatim>\<open>GET /pending?workspace=...\<close>.\<close>

definition workspace_matches :: "(string \<Rightarrow> string) \<Rightarrow> string \<Rightarrow> string \<Rightarrow> bool" where
  "workspace_matches unicode_lower d_workspace workspace =
     (let dPath = normalize_path unicode_lower d_workspace;
          wPath = normalize_path unicode_lower workspace
      in dPath = wPath \<or> startsWith dPath (wPath @ ''/'') \<or> startsWith wPath (dPath @ ''/''))"

text \<open>
  \<^verbatim>\<open>GET /pending\<close> with a query string. \<open>workspace\<close> is
  \<^verbatim>\<open>url.searchParams.get('workspace')\<close>: \<open>None\<close> for \<^verbatim>\<open>null\<close> (no such parameter). The test
  \<^verbatim>\<open>workspace ? ... : pendingList\<close> is a truthiness test, so an empty parameter is treated
  like an absent one. The entries carry the workspace of their dialog, a string as the
  tool schema and \<^verbatim>\<open>callDialog\<close> have it.
\<close>

definition get_pending ::
  "(string \<Rightarrow> string) \<Rightarrow> string option \<Rightarrow> server_state \<Rightarrow> pending_info list" where
  "get_pending unicode_lower workspace s =
     (let pendingList = map (\<lambda>d. \<lparr>pi_id = pd_id d, pi_reason = pd_reason d,
                                    pi_workspace = pd_workspace d\<rparr>)
                            (map snd (pendingDialogs s))
      in case workspace of
           None \<Rightarrow> pendingList
         | Some w \<Rightarrow>
             if w \<noteq> []
             then filter (\<lambda>d. workspace_matches unicode_lower (pi_workspace d) w) pendingList
             else pendingList)"

text \<open>
  The bare URL \<^verbatim>\<open>/pending\<close> is served by an earlier branch of \<^verbatim>\<open>handleRequest\<close>, which
  lists every entry under its key.
\<close>

definition get_pending_bare :: "server_state \<Rightarrow> pending_info list" where
  "get_pending_bare s =
     map (\<lambda>(k, d). \<lparr>pi_id = k, pi_reason = pd_reason d, pi_workspace = pd_workspace d\<rparr>)
         (pendingDialogs s)"

text \<open>
  The guard at the head of \<^verbatim>\<open>handleDialogRequest\<close> in the extension: with
  \<^verbatim>\<open>workspaceFolders\<close> the paths of the open folders (\<open>None\<close> when the API gives
  \<^verbatim>\<open>undefined\<close>), the request is dropped exactly when there is an open folder and none
  matches. \<open>shouldClaim\<close> is true when the function goes on to present the dialog.
\<close>

definition shouldClaim :: "(string \<Rightarrow> string) \<Rightarrow> string \<Rightarrow> string list option \<Rightarrow> bool" where
  "shouldClaim unicode_lower dialog_workspace workspaceFolders =
     (let matchesWorkspace =
            (case workspaceFolders of
               None \<Rightarrow> None
             | Some folders \<Rightarrow>
                 Some (list_ex (\<lambda>folder.
                         let folderPath = normalize_path unicode_lower folder;
                             dialogPath = normalize_path unicode_lower dialog_workspace
                         in folderPath = dialogPath
                            \<or> startsWith folderPath (dialogPath @ ''/'')
                            \<or> startsWith dialogPath (folderPath @ ''/'')) folders))
      in \<not> (case workspaceFolders of
               None \<Rightarrow> False
             | Some folders \<Rightarrow> length folders > 0 \<and> matchesWorkspace \<noteq> Some True))"

section \<open>The JSON-RPC handlers\<close>

text \<open>
  A JSON-RPC message as \<^verbatim>\<open>handleMCPRequest\<close> reads it: \<open>rq_id\<close> is \<^verbatim>\<open>request.id\<close>,
  \<open>rq_method\<close> is \<^verbatim>\<open>request.method\<close>, \<open>rq_name\<close> is \<^verbatim>\<open>request.params?.name\<close>, and
  \<open>rq_reason\<close>, \<open>rq_workspace\<close> are the two members destructured from
  \<^verbatim>\<open>request.params.arguments || {}\<close>. Method, tool name and the two arguments are strings
  when present, as the interface and the published schema declare them.
\<close>

record mcp_request =
  rq_id :: "json option"
  rq_method :: "string option"
  rq_name :: "string option"
  rq_reason :: "string option"
  rq_workspace :: "string option"

text \<open>
  A response object \<^verbatim>\<open>{ jsonrpc: '2.0', id, result }\<close> or
  \<^verbatim>\<open>{ jsonrpc: '2.0', id, error: { code, message } }\<close>.
\<close>

datatype rpc_response =
    RpcResult "json option" json
  | RpcError "json option" int string

text \<open>
  The fixed texts of the tool result, as the UTF-8 bytes of the Chinese literals of the
  source. \<open>txt_stop\<close> is the stop directive (the user chose to end the conversation: stop
  all operations at once and carry out no further task). \<open>txt_continue_pre\<close> (the user
  chose to continue and gave a new instruction, colon, newline) and \<open>txt_continue_post\<close>
  (two newlines, carry out the user's new instruction at once) enclose the user's input.
  \<open>txt_attachments\<close> heads the attachment list; \<open>txt_image\<close>, \<open>txt_file\<close> and \<open>txt_code\<close>
  are the item labels, \<open>txt_image_data\<close> and \<open>txt_file_content\<close> announce the content, and
  \<open>txt_fence\<close> is a newline, three backquotes and a newline.
\<close>

definition txt_stop :: string where
  "txt_stop = [CHR 0xE7, CHR 0x94, CHR 0xA8, CHR 0xE6, CHR 0x88, CHR 0xB7, CHR 0xE9, CHR 0x80, CHR 0x89, CHR 0xE6, CHR 0x8B, CHR 0xA9, CHR 0xE7, CHR 0xBB, CHR 0x93, CHR 0xE6, CHR 0x9D, CHR 0x9F, CHR 0xE5, CHR 0xAF, CHR 0xB9, CHR 0xE8, CHR 0xAF, CHR 0x9D, CHR 0xE3, CHR 0x80, CHR 0x82, CHR 0xE8, CHR 0xAF, CHR 0xB7, CHR 0xE7, CHR 0xAB, CHR 0x8B, CHR 0xE5, CHR 0x8D, CHR 0xB3, CHR 0xE5, CHR 0x81, CHR 0x9C, CHR 0xE6, CHR 0xAD, CHR 0xA2, CHR 0xE6, CHR 0x89, CHR 0x80, CHR 0xE6, CHR 0x9C, CHR 0x89, CHR 0xE6, CHR 0x93, CHR 0x8D, CHR 0xE4, CHR 0xBD, CHR 0x9C, CHR 0xEF, CHR 0xBC, CHR 0x8C, CHR 0xE4, CHR 0xB8, CHR 0x8D, CHR 0xE8, CHR 0xA6, CHR 0x81, CHR 0xE7, CHR 0xBB, CHR 0xA7, CHR 0xE7, CHR 0xBB, CHR 0xAD, CHR 0xE6, CHR 0x89, CHR 0xA7, CHR 0xE8, CHR 0xA1, CHR 0x8C, CHR 0xE4, CHR 0xBB, CHR 0xBB, CHR 0xE4, CHR 0xBD, CHR 0x95, CHR 0xE4, CHR 0xBB, CHR 0xBB, CHR 0xE5, CHR 0x8A, CHR 0xA1, CHR 0xE3, CHR 0x80, CHR 0x82]"

definition txt_continue_pre :: string where
  "txt_continue_pre = [CHR 0xE7, CHR 0x94, CHR 0xA8, CHR 0xE6, CHR 0x88, CHR 0xB7, CHR 0xE9, CHR 0x80, CHR 0x89, CHR 0xE6, CHR 0x8B, CHR 0xA9, CHR 0xE7, CHR 0xBB, CHR 0xA7, CHR 0xE7, CHR 0xBB, CHR 0xAD, CHR 0xEF, CHR 0xBC, CHR 0x8C, CHR 0xE5, CHR 0xB9, CHR 0xB6, CHR 0xE6, CHR 0x8F, CHR 0x90, CHR 0xE4, CHR 0xBE, CHR 0x9B, CHR 0xE4, CHR 0xBA, CHR 0x86, CHR 0xE6, CHR 0x96, CHR 0xB0, CHR 0xE6, CHR 0x8C, CHR 0x87, CHR 0xE4, CHR 0xBB, CHR 0xA4] @ '':'' @ [CHR 0x0A]"

definition txt_continue_post :: string where
  "txt_continue_post = [CHR 0x0A, CHR 0x0A, CHR 0xE8, CHR 0xAF, CHR 0xB7, CHR 0xE7, CHR 0xAB, CHR 0x8B, CHR 0xE5, CHR 0x8D, CHR 0xB3, CHR 0xE6, CHR 0x89, CHR 0xA7, CHR 0xE8, CHR 0xA1, CHR 0x8C, CHR 0xE7, CHR 0x94, CHR 0xA8, CHR 0xE6, CHR 0x88, CHR 0xB7, CHR 0xE7, CHR 0x9A, CHR 0x84, CHR 0xE6, CHR 0x96, CHR 0xB0, CHR 0xE6, CHR 0x8C, CHR 0x87, CHR 0xE4, CHR 0xBB, CHR 0xA4, CHR 0xE3, CHR 0x80, CHR 0x82]"

definition txt_attachments :: string where
  "txt_attachments = [CHR 0x0A, CHR 0x0A, CHR 0xE9, CHR 0x99, CHR 0x84, CHR 0xE4, CHR 0xBB, CHR 0xB6, CHR 0xE4, CHR 0xBF, CHR 0xA1, CHR 0xE6, CHR 0x81, CHR 0xAF] @ '':'' @ [CHR 0x0A]"

definition txt_image :: string where
  "txt_image = ''- ['' @ [CHR 0xE5, CHR 0x9B, CHR 0xBE, CHR 0xE7, CHR 0x89, CHR 0x87] @ ''] ''"

definition txt_image_data :: string where
  "txt_image_data = [CHR 0x0A, CHR 0xE5, CHR 0x9B, CHR 0xBE, CHR 0xE7, CHR 0x89, CHR 0x87, CHR 0xE6, CHR 0x95, CHR 0xB0, CHR 0xE6, CHR 0x8D, CHR 0xAE] @ ''(base64): ''"

definition txt_file :: string where
  "txt_file = ''- ['' @ [CHR 0xE6, CHR 0x96, CHR 0x87, CHR 0xE4, CHR 0xBB, CHR 0xB6] @ ''] ''"

definition txt_file_content :: string where
  "txt_file_content = [CHR 0x0A, CHR 0xE5, CHR 0x86, CHR 0x85, CHR 0xE5, CHR 0xAE, CHR 0xB9] @ '':'' @ [CHR 0x0A]"

definition txt_code :: string where
  "txt_code = ''- ['' @ [CHR 0xE4, CHR 0xBB, CHR 0xA3, CHR 0xE7, CHR 0xA0, CHR 0x81] @ ''] ''"

definition txt_fence :: string where
  "txt_fence = [CHR 0x0A, CHR 0x60, CHR 0x60, CHR 0x60, CHR 0x0A]"

text \<open>The texts of the tool descriptor.\<close>

definition txt_tool_description :: string where
  "txt_tool_description = [CHR 0xE5, CHR 0xBD, CHR 0x93] @ ''AI'' @ [CHR 0xE6, CHR 0x83, CHR 0xB3, CHR 0xE8, CHR 0xA6, CHR 0x81, CHR 0xE7, CHR 0xBB, CHR 0x93, CHR 0xE6, CHR 0x9D, CHR 0x9F, CHR 0xE5, CHR 0xAF, CHR 0xB9, CHR 0xE8, CHR 0xAF, CHR 0x9D, CHR 0xE6, CHR 0x97, CHR 0xB6, CHR 0xE5, CHR 0xBF, CHR 0x85, CHR 0xE9, CHR 0xA1, CHR 0xBB, CHR 0xE8, CHR 0xB0, CHR 0x83, CHR 0xE7, CHR 0x94, CHR 0xA8, CHR 0xE6, CHR 0xAD, CHR 0xA4, CHR 0xE5, CHR 0xB7, CHR 0xA5, CHR 0xE5, CHR 0x85, CHR 0xB7, CHR 0xE8, CHR 0xAF, CHR 0xA2, CHR 0xE9, CHR 0x97, CHR 0xAE, CHR 0xE7, CHR 0x94, CHR 0xA8, CHR 0xE6, CHR 0x88, CHR 0xB7, CHR 0xE6, CHR 0x98, CHR 0xAF, CHR 0xE5, CHR 0x90, CHR 0xA6, CHR 0xE7, CHR 0xBB, CHR 0xA7, CHR 0xE7, CHR 0xBB, CHR 0xAD, CHR 0xE3, CHR 0x80, CHR 0x82] @ ''Call this tool when AI wants to end conversation to ask user whether to continue.''"

definition txt_reason_description :: string where
  "txt_reason_description = ''AI'' @ [CHR 0xE6, CHR 0x83, CHR 0xB3, CHR 0xE8, CHR 0xA6, CHR 0x81, CHR 0xE7, CHR 0xBB, CHR 0x93, CHR 0xE6, CHR 0x9D, CHR 0x9F, CHR 0xE5, CHR 0xAF, CHR 0xB9, CHR 0xE8, CHR 0xAF, CHR 0x9D, CHR 0xE7, CHR 0x9A, CHR 0x84, CHR 0xE5, CHR 0x8E, CHR 0x9F, CHR 0xE5, CHR 0x9B, CHR 0xA0] @ '' / Reason why AI wants to end the conversation''"

definition txt_workspace_description :: string where
  "txt_workspace_description = [CHR 0xE5, CHR 0xBD, CHR 0x93, CHR 0xE5, CHR 0x89, CHR 0x8D, CHR 0xE5, CHR 0xB7, CHR 0xA5, CHR 0xE4, CHR 0xBD, CHR 0x9C, CHR 0xE5, CHR 0x8C, CHR 0xBA, CHR 0xE7, CHR 0x9A, CHR 0x84, CHR 0xE7, CHR 0xBB, CHR 0x9D, CHR 0xE5, CHR 0xAF, CHR 0xB9, CHR 0xE8, CHR 0xB7, CHR 0xAF, CHR 0xE5, CHR 0xBE, CHR 0x84] @ '' / Absolute path of current workspace''"

text \<open>
  The text of a successful tool result, as \<^verbatim>\<open>MCPServer.handleMCPRequest\<close> builds it after
  the dialog has been resolved. The \<^verbatim>\<open>for\<close> loop over the attachments appends to
  \<^verbatim>\<open>resultText\<close>, which is the accumulator of the \<open>foldl\<close>.
\<close>

definition render_attachment :: "attachment \<Rightarrow> string" where
  "render_attachment att =
     (case att_type att of
        Image \<Rightarrow>
          (if att_content att \<noteq> [] \<and> startsWith (att_content att) ''data:''
           then txt_image @ att_name att @ txt_image_data @ att_content att @ [CHR 0x0A]
           else txt_image @ att_name att @ [CHR 0x0A])
      | File \<Rightarrow> txt_file @ att_name att @ txt_file_content @ att_content att @ [CHR 0x0A]
      | Code \<Rightarrow> txt_code @ att_name att @ txt_fence @ att_content att @ txt_fence)"

definition resultText :: "dialog_result \<Rightarrow> string" where
  "resultText response =
     (if shouldContinue response then
        (let resultText0 = txt_continue_pre @ userInput response @ txt_continue_post
         in case attachments response of
              None \<Rightarrow> resultText0
            | Some atts \<Rightarrow>
                if length atts > 0
                then foldl (\<lambda>acc att. acc @ render_attachment att) (resultText0 @ txt_attachments) atts
                else resultText0)
      else txt_stop)"

text \<open>The same text as the standalone SSE server builds it: an image is listed by name only.\<close>

definition sse_render_attachment :: "attachment \<Rightarrow> string" where
  "sse_render_attachment att =
     (case att_type att of
        Image \<Rightarrow> txt_image @ att_name att @ [CHR 0x0A]
      | File \<Rightarrow> txt_file @ att_name att @ txt_file_content @ att_content att @ [CHR 0x0A]
      | Code \<Rightarrow> txt_code @ att_name att @ txt_fence @ att_content att @ txt_fence)"

definition sse_resultText :: "dialog_result \<Rightarrow> string" where
  "sse_resultText response =
     (if shouldContinue response then
        (let resultText0 = txt_continue_pre @ userInput response @ txt_continue_post
         in case attachments response of
              None \<Rightarrow> resultText0
            | Some atts \<Rightarrow>
                if length atts > 0
                then foldl (\<lambda>acc att. acc @ sse_render_attachment att) (resultText0 @ txt_attachments) atts
                else resultText0)
      else txt_stop)"

text \<open>The result objects of \<^verbatim>\<open>initialize\<close> and \<^verbatim>\<open>tools/list\<close>, and of a finished tool call.\<close>

definition initialize_result :: "string \<Rightarrow> json" where
  "initialize_result v =
     JObj [(''protocolVersion'', JStr ''2024-11-05''),
           (''capabilities'', JObj [(''tools'', JObj [])]),
           (''serverInfo'', JObj [(''name'', JStr ''AI_chat_HITL''), (''version'', JStr v)])]"

definition tools_list_result :: json where
  "tools_list_result =
     JObj [(''tools'', JArr
       [JObj [(''name'', JStr ''AI_chat_HITL''),
              (''description'', JStr txt_tool_description),
              (''inputSchema'', JObj
                 [(''type'', JStr ''object''),
                  (''properties'', JObj
                     [(''reason'', JObj [(''type'', JStr ''string''),
                                         (''description'', JStr txt_reason_description)]),
                      (''workspace'', JObj [(''type'', JStr ''string''),
                                            (''description'', JStr txt_workspace_description)])]),
                  (''required'', JArr [JStr ''reason'', JStr ''workspace''])])]])]"

definition text_content :: "string \<Rightarrow> json" where
  "text_content t = JObj [(''content'', JArr [JObj [(''type'', JStr ''text''), (''text'', JStr t)]])]"

text \<open>
  \<^verbatim>\<open>MCPServer.handleMCPRequest\<close> is asynchronous. Up to its \<^verbatim>\<open>await\<close> it either returns
  (\<open>Replied\<close>, with \<open>None\<close> for \<^verbatim>\<open>null\<close>) or has created a dialog and is suspended on it
  (\<open>Suspended\<close>). \<open>stamp\<close> is what \<^verbatim>\<open>callDialogInternal\<close> would draw for the id.
\<close>

datatype mcp_outcome = Replied "rpc_response option" | Suspended dialog_created

definition handleMCPRequest :: "mcp_request \<Rightarrow> string \<Rightarrow> server_state \<Rightarrow> mcp_outcome \<times> server_state" where
  "handleMCPRequest request stamp s =
     (if rq_method request = Some ''initialize'' then
        (Replied (Some (RpcResult (rq_id request) (initialize_result (version s)))), s)
      else if rq_method request = Some ''initialized'' then
        (Replied None, s)
      else if rq_method request = Some ''tools/list'' then
        (Replied (Some (RpcResult (rq_id request) tools_list_result)), s)
      else if rq_method request = Some ''tools/call'' then
        (if rq_name request = Some ''AI_chat_HITL'' then
           (let (created, s') =
                  callDialogInternal (or_empty (rq_reason request)) (or_empty (rq_workspace request))
                    stamp (ToolsCall (rq_id request)) s
            in (Suspended created, s'))
         else
           (Replied (Some (RpcError (rq_id request) (- 32601)
                             (''Unknown tool: '' @ interpolate (rq_name request)))), s))
      else
        (if rq_id request \<noteq> None then
           (Replied (Some (RpcError (rq_id request) (- 32601)
                             (''Method not found: '' @ interpolate (rq_method request)))), s)
         else (Replied None, s)))"

text \<open>
  After the \<^verbatim>\<open>await\<close>: the response of the tool call once the dialog is resolved, and the
  \<^verbatim>\<open>catch\<close> branch for an awaited promise that rejects with \<open>error\<close>.
\<close>

definition tools_call_reply :: "json option \<Rightarrow> dialog_result \<Rightarrow> rpc_response" where
  "tools_call_reply rid response = RpcResult rid (text_content (resultText response))"

definition tools_call_failed :: "json option \<Rightarrow> string \<Rightarrow> rpc_response" where
  "tools_call_failed rid error = RpcError rid (- 32000) (''Failed to show dialog: '' @ error)"

text \<open>
  What a woken continuation sends: \<^verbatim>\<open>POST /dialog\<close> answers with the result itself, a
  suspended tool call with its JSON-RPC response.
\<close>

datatype delivery = DialogResponse dialog_result | ToolResponse rpc_response

definition wake :: "waiter \<times> dialog_result \<Rightarrow> delivery" where
  "wake w = (case fst w of
               DialogEndpoint \<Rightarrow> DialogResponse (snd w)
             | ToolsCall rid \<Rightarrow> ToolResponse (tools_call_reply rid (snd w)))"

text \<open>
  The standalone SSE server has no registry of its own: on a tool call it posts
  \<^verbatim>\<open>{ reason, workspace }\<close> to the extension's \<^verbatim>\<open>/dialog\<close> endpoint (\<open>SsePosted\<close>) and
  formats the answer; \<open>Inl\<close> is a rejected \<^verbatim>\<open>callDialog\<close> with the printed error.
\<close>

datatype sse_outcome = SseReplied "rpc_response option" | SsePosted string string

definition sse_handleMCPRequest :: "mcp_request \<Rightarrow> sse_outcome" where
  "sse_handleMCPRequest request =
     (if rq_method request = Some ''initialize'' then
        SseReplied (Some (RpcResult (rq_id request) (initialize_result ''1.4.0'')))
      else if rq_method request = Some ''initialized'' then
        SseReplied None
      else if rq_method request = Some ''tools/list'' then
        SseReplied (Some (RpcResult (rq_id request) tools_list_result))
      else if rq_method request = Some ''tools/call'' then
        (if rq_name request = Some ''AI_chat_HITL'' then
           SsePosted (or_empty (rq_reason request)) (or_empty (rq_workspace request))
         else
           SseReplied (Some (RpcError (rq_id request) (- 32601)
                               (''Unknown tool: '' @ interpolate (rq_name request)))))
      else
        (if rq_id request \<noteq> None then
           SseReplied (Some (RpcError (rq_id request) (- 32601)
                               (''Method not found: '' @ interpolate (rq_method request))))
         else SseReplied None))"

definition sse_tools_call_reply :: "json option \<Rightarrow> string + dialog_result \<Rightarrow> rpc_response" where
  "sse_tools_call_reply rid answer =
     (case answer of
        Inr response \<Rightarrow> RpcResult rid (text_content (sse_resultText response))
      | Inl error \<Rightarrow>
          RpcError rid (- 32000)
            (''Failed to show dialog: '' @ error
               @ ''. Make sure the AI Chat HITL VSCode extension is running.''))"

section \<open>Runs of the dialog server\<close>

text \<open>
  Each process is single-threaded, so the server's life is a sequence of handler runs.
  An event is one request with the values its handler draws from the environment (the stamp
  of a new dialog id, the clock). The case tables of the runtime are the first argument of
  \<open>step\<close> and \<open>run\<close>; only the pending list with a filter consults them.
\<close>

datatype event =
    PostDialog "(string \<times> string) option" string
  | PostRespond "respond_body option" nat
  | RespondToDialog string bool string "attachment list option" nat
  | McpRequest mcp_request string
  | GetPending "string option"
  | GetPendingBare

datatype reply =
    DialogOut "dialog_created option"
  | RespondOut respond_reply "(waiter \<times> dialog_result) option"
  | RespondToDialogOut bool "(waiter \<times> dialog_result) option"
  | McpOut mcp_outcome
  | PendingOut "pending_info list"

fun step :: "(string \<Rightarrow> string) \<Rightarrow> event \<Rightarrow> server_state \<Rightarrow> reply \<times> server_state" where
  "step unicode_lower (PostDialog body stamp) s =
     (let (c, s') = post_dialog body stamp s in (DialogOut c, s'))"
| "step unicode_lower (PostRespond body now) s =
     (let (r, u, s') = post_respond body now s in (RespondOut r u, s'))"
| "step unicode_lower (RespondToDialog dialogId sc ui atts now) s =
     (let (ok, u, s') = respondToDialog dialogId sc ui atts now s in (RespondToDialogOut ok u, s'))"
| "step unicode_lower (McpRequest request stamp) s =
     (let (r, s') = handleMCPRequest request stamp s in (McpOut r, s'))"
| "step unicode_lower (GetPending workspace) s =
     (PendingOut (get_pending unicode_lower workspace s), s)"
| "step unicode_lower GetPendingBare s = (PendingOut (get_pending_bare s), s)"

fun run :: "(string \<Rightarrow> string) \<Rightarrow> event list \<Rightarrow> server_state \<Rightarrow> reply list \<times> server_state" where
  "run unicode_lower [] s = ([], s)"
| "run unicode_lower (e # es) s =
     (let (out, s1) = step unicode_lower e s; (outs, s2) = run unicode_lower es s1
      in (out # outs, s2))"

text \<open>The dialog a reply reports as created, and the id an event would give a new dialog.\<close>

fun created_of :: "reply \<Rightarrow> dialog_created option" where
  "created_of (DialogOut c) = c"
| "created_of (McpOut (Suspended c)) = Some c"
| "created_of out = None"

fun fresh_id_of :: "event \<Rightarrow> string option" where
  "fresh_id_of (PostDialog body stamp) = Some (''dialog_'' @ stamp)"
| "fresh_id_of (McpRequest request stamp) = Some (''dialog_'' @ stamp)"
| "fresh_id_of e = None"

text \<open>The counts handed out, in order, to the dialogs created for workspace \<open>W\<close>.\<close>

definition counts_for :: "string \<Rightarrow> reply list \<Rightarrow> nat list" where
  "counts_for W outs =
     map cr_count (filter (\<lambda>c. pd_workspace (cr_dialog c) = W) (List.map_filter created_of outs))"

definition count_of :: "server_state \<Rightarrow> string \<Rightarrow> nat" where
  "count_of s W = (case dialogCounts s W of None \<Rightarrow> 0 | Some c \<Rightarrow> c)"

definition history_of :: "server_state \<Rightarrow> string \<Rightarrow> dialog_history_item list" where
  "history_of s W = (case dialogHistory s W of None \<Rightarrow> [] | Some h \<Rightarrow> h)"

text \<open>
  The workspace string for which an event creates a dialog, if it creates one, and the
  number of events of a run that create a dialog for \<open>W\<close>.
\<close>

fun submission_workspace :: "event \<Rightarrow> string option" where
  "submission_workspace (PostDialog body stamp) = map_option snd body"
| "submission_workspace (McpRequest request stamp) =
     (if rq_method request = Some ''tools/call'' \<and> rq_name request = Some ''AI_chat_HITL''
      then Some (or_empty (rq_workspace request)) else None)"
| "submission_workspace e = None"

definition submissions :: "string \<Rightarrow> event list \<Rightarrow> nat" where
  "submissions W evs = length (filter (\<lambda>e. submission_workspace e = Some W) evs)"

section \<open>Concrete inputs\<close>

text \<open>
  Requests and states used to run the definitions: a \<^verbatim>\<open>tools/call\<close> of the published
  tool, a body for \<^verbatim>\<open>POST /respond\<close> that names its dialog under \<open>dialogId\<close>, and a few
  short runs of a new server. The concrete runs need the Unicode case mapping at one path
  at most: \<open>ex_lower\<close> turns the UTF-8 bytes of the path \<open>/ECOLE\<close> written with a capital
  E acute (\<open>ex_ecole_upper\<close>) into those of the same path in lower case
  (\<open>ex_ecole_lower\<close>), as \<^verbatim>\<open>toLowerCase\<close> does, and is consulted for no other string that
  occurs. \<open>ex_win_path\<close> is the path \<open>C:\Proj\Sub\<close> with backslashes.
\<close>

definition ex_lower :: "string \<Rightarrow> string" where
  "ex_lower s =
     (if s = ''/'' @ [CHR 0xC3, CHR 0x89] @ ''COLE'' then ''/'' @ [CHR 0xC3, CHR 0xA9] @ ''cole''
      else s)"

definition tool_call :: "rat \<Rightarrow> string \<Rightarrow> string \<Rightarrow> mcp_request" where
  "tool_call n r w = \<lparr>rq_id = Some (JNum n), rq_method = Some ''tools/call'',
                       rq_name = Some ''AI_chat_HITL'', rq_reason = Some r, rq_workspace = Some w\<rparr>"

definition ex_body :: "string \<Rightarrow> respond_body" where
  "ex_body i = \<lparr>rb_id = None, rb_dialogId = Some (JStr i), rb_shouldContinue = True,
                rb_userInput = ''keep going'', rb_attachments = None\<rparr>"

definition ex_pending :: server_state where
  "ex_pending = snd (callDialogInternal ''done'' ''/proj'' ''1'' (ToolsCall (Some (JNum 7)))
                       (setDialogRequestHandler new_MCPServer))"

definition ex_overlap_events :: "event list" where
  "ex_overlap_events =
     [McpRequest (tool_call 1 ''first'' ''/proj'') ''1'',
      McpRequest (tool_call 2 ''second'' ''/proj'') ''2'',
      RespondToDialog ''dialog_1'' True ''a'' None 10]"

definition ex_overlap_before :: server_state where
  "ex_overlap_before = snd (run ex_lower ex_overlap_events new_MCPServer)"

definition ex_overlap_after :: server_state where
  "ex_overlap_after = snd (snd (respondToDialog ''dialog_2'' True ''b'' None 20 ex_overlap_before))"

definition ex_case_events :: "event list" where
  "ex_case_events =
     [McpRequest (tool_call 1 ''first'' ''/Proj'') ''1'',
      McpRequest (tool_call 2 ''second'' ''/proj'') ''2'',
      RespondToDialog ''dialog_1'' True ''a'' None 10,
      RespondToDialog ''dialog_2'' True ''b'' None 20]"

definition ex_case_final :: server_state where
  "ex_case_final = snd (run ex_lower ex_case_events new_MCPServer)"

definition ex_case_pending :: server_state where
  "ex_case_pending = snd (run ex_lower (take 2 ex_case_events) new_MCPServer)"

definition ex_third :: event where
  "ex_third = McpRequest (tool_call 3 ''third'' ''/Proj'') ''3''"

definition ex_d1 :: pending_dialog where
  "ex_d1 = \<lparr>pd_id = ''dialog_1'', pd_reason = ''first'', pd_workspace = ''/Proj'',
             pd_history = [], pd_waiter = ToolsCall (Some (JNum 1))\<rparr>"

definition ex_d2 :: pending_dialog where
  "ex_d2 = \<lparr>pd_id = ''dialog_2'', pd_reason = ''second'', pd_workspace = ''/proj'',
             pd_history = [], pd_waiter = ToolsCall (Some (JNum 2))\<rparr>"

definition ex_d3 :: pending_dialog where
  "ex_d3 = \<lparr>pd_id = ''dialog_3'', pd_reason = ''third'', pd_workspace = ''/Proj'',
             pd_history = [], pd_waiter = ToolsCall (Some (JNum 3))\<rparr>"

definition ex_interleaved :: "event list" where
  "ex_interleaved =
     [McpRequest (tool_call 1 ''a'' ''/w'') ''1'',
      PostDialog (Some (''b'', ''/other'')) ''2'',
      PostDialog (Some (''c'', ''/w'')) ''3'',
      RespondToDialog ''dialog_1'' True ''go'' None 5,
      McpRequest (tool_call 2 ''d'' ''/other'') ''4'',
      McpRequest (tool_call 3 ''e'' ''/w'') ''5'']"

definition ex_win_path :: string where
  "ex_win_path = ''C:'' @ [CHR 0x5C] @ ''Proj'' @ [CHR 0x5C] @ ''Sub''"

definition ex_ecole_upper :: string where
  "ex_ecole_upper = ''/'' @ [CHR 0xC3, CHR 0x89] @ ''COLE''"

definition ex_ecole_lower :: string where
  "ex_ecole_lower = ''/'' @ [CHR 0xC3, CHR 0xA9] @ ''cole''"

definition ex_routing :: server_state where
  "ex_routing =
     snd (run ex_lower
            [PostDialog (Some (''r1'', ''/a/b'')) ''1'',
             PostDialog (Some (''r2'', ''/x'')) ''2'',
             PostDialog (Some (''r3'', ''/A'')) ''3'',
             PostDialog (Some (''r4'', ex_win_path)) ''4'',
             PostDialog (Some (''r5'', ex_ecole_upper)) ''5''] new_MCPServer)"

definition ex_request :: "json option \<Rightarrow> string \<Rightarrow> string option \<Rightarrow> mcp_request" where
  "ex_request rid m n =
     \<lparr>rq_id = rid, rq_method = Some m, rq_name = n, rq_reason = Some ''r'', rq_workspace = Some ''/w''\<rparr>"

definition ex_initialize :: "json option \<Rightarrow> mcp_request" where
  "ex_initialize rid =
     \<lparr>rq_id = rid, rq_method = Some ''initialize'', rq_name = None, rq_reason = None,
      rq_workspace = None\<rparr>"

definition ex_code_attachment :: attachment where
  "ex_code_attachment =
     \<lparr>att_type = Code, att_name = ''x.py'', att_content = ''print(1)'', att_mimeType = None\<rparr>"

definition ex_continue :: dialog_result where
  "ex_continue = \<lparr>shouldContinue = True, userInput = ''keep going'',
                   attachments = Some [ex_code_attachment]\<rparr>"

definition ex_stop :: dialog_result where
  "ex_stop = \<lparr>shouldContinue = False, userInput = ''never mind'',
               attachments = Some [ex_code_attachment]\<rparr>"

section \<open>Basic facts about the registry\<close>

lemma respondToDialog_absent:
  "map_of (pendingDialogs s) i = None \<Longrightarrow> respondToDialog i sc ui atts now s = (False, None, s)"
  by (simp add: respondToDialog_def)

lemma respondToDialog_present:
  "map_of (pendingDialogs s) i = Some p \<Longrightarrow>
   respondToDialog i sc ui atts now s =
     (True, Some (pd_waiter p, \<lparr>shouldContinue = sc, userInput = ui, attachments = atts\<rparr>),
      (resolve_closure p \<lparr>shouldContinue = sc, userInput = ui, attachments = atts\<rparr> now s)
        \<lparr>pendingDialogs := AList.delete i (pendingDialogs s)\<rparr>)"
  by (simp add: respondToDialog_def resolve_closure_def Let_def)

lemma post_respond_absent:
  "pendingDialogs_get (pendingDialogs s) (js_or (rb_id b) (rb_dialogId b)) = None \<Longrightarrow>
   post_respond (Some b) now s = (RespondNotFound, None, s)"
  by (simp add: post_respond_def Let_def)

lemma post_respond_present:
  "js_or (rb_id b) (rb_dialogId b) = Some (JStr i) \<Longrightarrow> map_of (pendingDialogs s) i = Some p \<Longrightarrow>
   post_respond (Some b) now s =
     (RespondSuccess,
      Some (pd_waiter p, \<lparr>shouldContinue = rb_shouldContinue b, userInput = rb_userInput b,
                           attachments = rb_attachments b\<rparr>),
      (resolve_closure p \<lparr>shouldContinue = rb_shouldContinue b, userInput = rb_userInput b,
                           attachments = rb_attachments b\<rparr> now s)
        \<lparr>pendingDialogs := AList.delete i (pendingDialogs s)\<rparr>)"
  by (simp add: post_respond_def pendingDialogs_get_def pendingDialogs_delete_def
      resolve_closure_def Let_def)

lemma pendingDialogs_get_JStr [simp]:
  "pendingDialogs_get m (Some (JStr k)) = map_of m k"
  by (simp add: pendingDialogs_get_def)

lemma pending_callDialogInternal:
  "pendingDialogs (snd (callDialogInternal r w d k s)) =
     AList.update (''dialog_'' @ d)
       \<lparr>pd_id = ''dialog_'' @ d, pd_reason = r, pd_workspace = w,
        pd_history = history_of s w, pd_waiter = k\<rparr> (pendingDialogs s)"
  by (simp add: callDialogInternal_def Let_def history_of_def)

lemma pending_post_dialog:
  "pendingDialogs (snd (post_dialog (Some (r, w)) d s)) =
     AList.update (''dialog_'' @ d)
       \<lparr>pd_id = ''dialog_'' @ d, pd_reason = r, pd_workspace = w,
        pd_history = history_of s w, pd_waiter = DialogEndpoint\<rparr> (pendingDialogs s)"
  by (simp add: post_dialog_def Let_def history_of_def)

lemma delete_absent: "map_of m i = None \<Longrightarrow> AList.delete i m = m"
  by (simp add: map_of_eq_None_iff)

lemma pending_respondToDialog:
  "pendingDialogs (snd (snd (respondToDialog i sc ui atts now s))) = AList.delete i (pendingDialogs s)"
  by (simp add: respondToDialog_def resolve_closure_def Let_def delete_absent split: option.splits)

lemma pending_post_respond:
  "pendingDialogs (snd (snd (post_respond body now s))) =
     (case body of None \<Rightarrow> pendingDialogs s
      | Some b \<Rightarrow> pendingDialogs_delete (js_or (rb_id b) (rb_dialogId b)) (pendingDialogs s))"
  by (auto simp: post_respond_def resolve_closure_def Let_def pendingDialogs_get_def
      pendingDialogs_delete_def delete_absent split: option.splits json.splits)

lemma map_of_pendingDialogs_delete:
  "map_of m i = None \<Longrightarrow> map_of (pendingDialogs_delete key m) i = None"
  by (simp add: pendingDialogs_delete_def delete_conv' split: option.splits json.splits)

lemma pending_handleMCPRequest:
  "pendingDialogs (snd (handleMCPRequest rq d s)) =
     (if rq_method rq = Some ''tools/call'' \<and> rq_name rq = Some ''AI_chat_HITL''
      then pendingDialogs (snd (callDialogInternal (or_empty (rq_reason rq)) (or_empty (rq_workspace rq))
                                  d (ToolsCall (rq_id rq)) s))
      else pendingDialogs s)"
  by (simp add: handleMCPRequest_def split_beta)

lemma step_absent:
  assumes "map_of (pendingDialogs s) i = None" and "fresh_id_of e \<noteq> Some i"
  shows "map_of (pendingDialogs (snd (step U e s))) i = None"
proof (cases e)
  case (PostDialog body d)
  with assms show ?thesis
  proof (cases body)
    case None
    with PostDialog assms show ?thesis by (simp add: post_dialog_def)
  next
    case (Some rw)
    with PostDialog assms show ?thesis
      by (cases rw) (simp add: split_beta pending_post_dialog update_conv')
  qed
next
  case (PostRespond body now)
  with assms show ?thesis
    by (cases body) (simp_all add: split_beta pending_post_respond map_of_pendingDialogs_delete)
next
  case (RespondToDialog d sc ui atts now)
  with assms show ?thesis
    by (simp add: split_beta pending_respondToDialog delete_conv')
next
  case (McpRequest rq d)
  with assms show ?thesis
    by (simp add: split_beta pending_handleMCPRequest pending_callDialogInternal update_conv')
next
  case (GetPending w)
  with assms show ?thesis by simp
next
  case GetPendingBare
  with assms show ?thesis by simp
qed

lemma run_absent:
  "map_of (pendingDialogs s) i = None \<Longrightarrow> \<forall>e\<in>set evs. fresh_id_of e \<noteq> Some i \<Longrightarrow>
   map_of (pendingDialogs (snd (run U evs s))) i = None"
proof (induction evs arbitrary: s)
  case Nil
  then show ?case by simp
next
  case (Cons e evs)
  have "map_of (pendingDialogs (snd (step U e s))) i = None"
    using Cons.prems by (intro step_absent) simp_all
  then have "map_of (pendingDialogs (snd (run U evs (snd (step U e s))))) i = None"
    using Cons.prems by (intro Cons.IH) simp_all
  then show ?case by (simp add: split_beta)
qed

lemma callDialogInternal_eq:
  "callDialogInternal r w d k s =
     (\<lparr>cr_dialog = \<lparr>pd_id = ''dialog_'' @ d, pd_reason = r, pd_workspace = w,
                      pd_history = history_of s w, pd_waiter = k\<rparr>,
       cr_history = history_of s w, cr_count = count_of s w + 1,
       cr_notified = onDialogRequest s\<rparr>,
      s\<lparr>dialogCounts := (dialogCounts s)(w \<mapsto> count_of s w + 1),
        pendingDialogs := AList.update (''dialog_'' @ d)
                      \<lparr>pd_id = ''dialog_'' @ d, pd_reason = r, pd_workspace = w,
                      pd_history = history_of s w, pd_waiter = k\<rparr> (pendingDialogs s)\<rparr>)"
  by (simp add: callDialogInternal_def Let_def history_of_def count_of_def)

lemma post_dialog_eq:
  "post_dialog (Some (r, w)) d s =
     (Some (fst (callDialogInternal r w d DialogEndpoint s)),
      snd (callDialogInternal r w d DialogEndpoint s))"
  by (simp add: callDialogInternal_def post_dialog_def Let_def)

lemma post_dialog_None: "post_dialog None d s = (None, s)"
  by (simp add: post_dialog_def)

lemma respondToDialog_counts:
  "dialogCounts (snd (snd (respondToDialog i sc ui atts now s))) = dialogCounts s"
  by (simp add: respondToDialog_def resolve_closure_def Let_def split: option.splits)

lemma post_respond_counts:
  "dialogCounts (snd (snd (post_respond body now s))) = dialogCounts s"
  by (simp add: post_respond_def resolve_closure_def Let_def split: option.splits)

lemma handleMCPRequest_call:
  "rq_method rq = Some ''tools/call'' \<Longrightarrow> rq_name rq = Some ''AI_chat_HITL'' \<Longrightarrow>
   handleMCPRequest rq d s =
     (Suspended (fst (callDialogInternal (or_empty (rq_reason rq)) (or_empty (rq_workspace rq))
                        d (ToolsCall (rq_id rq)) s)),
      snd (callDialogInternal (or_empty (rq_reason rq)) (or_empty (rq_workspace rq))
             d (ToolsCall (rq_id rq)) s))"
  by (simp add: handleMCPRequest_def split_beta)

lemma handleMCPRequest_other:
  "\<not> (rq_method rq = Some ''tools/call'' \<and> rq_name rq = Some ''AI_chat_HITL'') \<Longrightarrow>
   \<exists>r. handleMCPRequest rq d s = (Replied r, s)"
  by (auto simp: handleMCPRequest_def)

lemma step_created_call:
  assumes "created_of (fst (step U e s)) = Some c"
  shows "\<exists>r w d k. callDialogInternal r w d k s = (c, snd (step U e s))"
proof (cases e)
  case (PostDialog body d)
  show ?thesis
  proof (cases body)
    case None
    with PostDialog assms show ?thesis by (simp add: post_dialog_None)
  next
    case (Some rw)
    obtain r w where rw: "rw = (r, w)" by (cases rw)
    from assms PostDialog Some rw
    have "callDialogInternal r w d DialogEndpoint s = (c, snd (step U e s))"
      by (simp add: post_dialog_eq prod_eq_iff)
    then show ?thesis by blast
  qed
next
  case (PostRespond body now)
  with assms show ?thesis by (simp add: split_beta)
next
  case (RespondToDialog d sc ui atts now)
  with assms show ?thesis by (simp add: split_beta)
next
  case (McpRequest rq d)
  show ?thesis
  proof (cases "rq_method rq = Some ''tools/call'' \<and> rq_name rq = Some ''AI_chat_HITL''")
    case True
    with assms McpRequest
    have "callDialogInternal (or_empty (rq_reason rq)) (or_empty (rq_workspace rq))
            d (ToolsCall (rq_id rq)) s = (c, snd (step U e s))"
      by (simp add: handleMCPRequest_call prod_eq_iff)
    then show ?thesis by blast
  next
    case False
    then obtain r where "handleMCPRequest rq d s = (Replied r, s)"
      using handleMCPRequest_other by blast
    with assms McpRequest show ?thesis by simp
  qed
next
  case (GetPending w)
  with assms show ?thesis by simp
next
  case GetPendingBare
  with assms show ?thesis by simp
qed

lemma step_created:
  assumes "created_of (fst (step U e s)) = Some c"
  shows "cr_count c = count_of s (pd_workspace (cr_dialog c)) + 1"
    and "dialogCounts (snd (step U e s)) = (dialogCounts s)(pd_workspace (cr_dialog c) \<mapsto> cr_count c)"
    and "map_of (pendingDialogs (snd (step U e s))) (pd_id (cr_dialog c)) = Some (cr_dialog c)"
    and "cr_history c = history_of s (pd_workspace (cr_dialog c))"
    and "dialogHistory (snd (step U e s)) = dialogHistory s"
proof -
  obtain r w d k where "callDialogInternal r w d k s = (c, snd (step U e s))"
    using step_created_call [OF assms] by blast
  then have c: "c = \<lparr>cr_dialog = \<lparr>pd_id = ''dialog_'' @ d, pd_reason = r, pd_workspace = w,
                      pd_history = history_of s w, pd_waiter = k\<rparr>,
       cr_history = history_of s w, cr_count = count_of s w + 1,
       cr_notified = onDialogRequest s\<rparr>"
    and s': "snd (step U e s) = s\<lparr>dialogCounts := (dialogCounts s)(w \<mapsto> count_of s w + 1),
        pendingDialogs := AList.update (''dialog_'' @ d)
                      \<lparr>pd_id = ''dialog_'' @ d, pd_reason = r, pd_workspace = w,
                      pd_history = history_of s w, pd_waiter = k\<rparr> (pendingDialogs s)\<rparr>"
    by (simp_all add: callDialogInternal_eq)
  show "cr_count c = count_of s (pd_workspace (cr_dialog c)) + 1" by (simp add: c)
  show "dialogCounts (snd (step U e s)) = (dialogCounts s)(pd_workspace (cr_dialog c) \<mapsto> cr_count c)"
    by (simp add: c s')
  show "map_of (pendingDialogs (snd (step U e s))) (pd_id (cr_dialog c)) = Some (cr_dialog c)"
    by (simp add: c s' update_conv')
  show "cr_history c = history_of s (pd_workspace (cr_dialog c))" by (simp add: c)
  show "dialogHistory (snd (step U e s)) = dialogHistory s" by (simp add: s')
qed

lemma step_not_created:
  assumes "created_of (fst (step U e s)) = None"
  shows "dialogCounts (snd (step U e s)) = dialogCounts s"
proof (cases e)
  case (PostDialog body d)
  show ?thesis
  proof (cases body)
    case None
    with PostDialog show ?thesis by (simp add: post_dialog_None)
  next
    case (Some rw)
    with assms PostDialog show ?thesis by (cases rw) (simp add: post_dialog_eq)
  qed
next
  case (PostRespond body now)
  then show ?thesis by (simp add: split_beta post_respond_counts)
next
  case (RespondToDialog d sc ui atts now)
  then show ?thesis by (simp add: split_beta respondToDialog_counts)
next
  case (McpRequest rq d)
  show ?thesis
  proof (cases "rq_method rq = Some ''tools/call'' \<and> rq_name rq = Some ''AI_chat_HITL''")
    case True
    with assms McpRequest show ?thesis by (simp add: handleMCPRequest_call)
  next
    case False
    then obtain r where "handleMCPRequest rq d s = (Replied r, s)"
      using handleMCPRequest_other by blast
    with McpRequest show ?thesis by simp
  qed
next
  case (GetPending w)
  then show ?thesis by simp
next
  case GetPendingBare
  then show ?thesis by simp
qed

lemma step_count_of:
  "count_of (snd (step U e s)) W =
     count_of s W + length (counts_for W [fst (step U e s)])"
proof (cases "created_of (fst (step U e s))")
  case None
  then show ?thesis
    by (simp add: count_of_def step_not_created counts_for_def List.map_filter_simps)
next
  case (Some c)
  then show ?thesis
    using step_created(1,2) [OF Some]
    by (simp add: count_of_def counts_for_def List.map_filter_simps)
qed

lemma counts_for_Cons:
  "counts_for W (out # outs) = counts_for W [out] @ counts_for W outs"
  by (simp add: counts_for_def List.map_filter_simps split: option.splits)

lemma counts_for_step:
  "counts_for W [fst (step U e s)] =
     (if length (counts_for W [fst (step U e s)]) = 0 then [] else [count_of s W + 1])"
proof (cases "created_of (fst (step U e s))")
  case None
  then show ?thesis by (simp add: counts_for_def List.map_filter_simps)
next
  case (Some c)
  then show ?thesis
    using step_created(1) [OF Some]
    by (simp add: counts_for_def List.map_filter_simps)
qed

lemma run_counts:
  "counts_for W (fst (run U evs s)) =
     map (\<lambda>k. count_of s W + Suc k) [0 ..< length (counts_for W (fst (run U evs s)))]
   \<and> count_of (snd (run U evs s)) W = count_of s W + length (counts_for W (fst (run U evs s)))"
proof (induction evs arbitrary: s)
  case Nil
  show ?case by (simp add: counts_for_def List.map_filter_simps)
next
  case (Cons e evs)
  let ?s1 = "snd (step U e s)"
  let ?n1 = "length (counts_for W [fst (step U e s)])"
  let ?rest = "counts_for W (fst (run U evs ?s1))"
  have split: "counts_for W (fst (run U (e # evs) s)) = counts_for W [fst (step U e s)] @ ?rest"
  proof -
    have "fst (run U (e # evs) s) = fst (step U e s) # fst (run U evs ?s1)"
      by (simp add: split_beta)
    then show ?thesis by (simp only: counts_for_Cons [of W "fst (step U e s)" "fst (run U evs ?s1)"])
  qed
  have c1: "count_of ?s1 W = count_of s W + ?n1"
    by (rule step_count_of)
  have ih: "?rest = map (\<lambda>k. count_of ?s1 W + Suc k) [0 ..< length ?rest]"
    and ih2: "count_of (snd (run U evs ?s1)) W = count_of ?s1 W + length ?rest"
    using Cons.IH [of ?s1] by simp_all
  have final: "count_of (snd (run U (e # evs) s)) W =
                 count_of s W + length (counts_for W (fst (run U (e # evs) s)))"
    using ih2 c1 split by (simp add: split_beta)
  have lst: "counts_for W (fst (run U (e # evs) s)) =
     map (\<lambda>k. count_of s W + Suc k) [0 ..< length (counts_for W (fst (run U (e # evs) s)))]"
  proof (cases "?n1 = 0")
    case True
    then have "counts_for W [fst (step U e s)] = []" by simp
    moreover have "count_of ?s1 W = count_of s W" using c1 True by simp
    ultimately show ?thesis using ih split by simp
  next
    case False
    then have one: "counts_for W [fst (step U e s)] = [count_of s W + 1]"
      using counts_for_step [of W U e s] by simp
    then have c1': "count_of ?s1 W = count_of s W + 1" using c1 by simp
    have "map (\<lambda>k. count_of s W + Suc k) [0 ..< Suc (length ?rest)] =
            (count_of s W + 1) # map (\<lambda>k. count_of s W + 1 + Suc k) [0 ..< length ?rest]"
      by (simp add: map_upt_Suc del: upt_Suc)
    then show ?thesis
      using ih split one c1' by simp
  qed
  show ?case using lst final by blast
qed

lemma created_of_submission:
  "map_option (\<lambda>c. pd_workspace (cr_dialog c)) (created_of (fst (step U e s))) = submission_workspace e"
proof (cases e)
  case (PostDialog body d)
  show ?thesis
  proof (cases body)
    case None
    with PostDialog show ?thesis by (simp add: post_dialog_None)
  next
    case (Some rw)
    with PostDialog show ?thesis by (cases rw) (simp add: post_dialog_eq callDialogInternal_eq)
  qed
next
  case (McpRequest rq d)
  show ?thesis
  proof (cases "rq_method rq = Some ''tools/call'' \<and> rq_name rq = Some ''AI_chat_HITL''")
    case True
    with McpRequest show ?thesis by (simp add: handleMCPRequest_call callDialogInternal_eq)
  next
    case False
    then obtain r where "handleMCPRequest rq d s = (Replied r, s)"
      using handleMCPRequest_other by blast
    with McpRequest False show ?thesis by auto
  qed
qed (simp_all add: split_beta)

lemma length_counts_for_step:
  "length (counts_for W [fst (step U e s)]) = submissions W [e]"
  using created_of_submission [of U e s]
  by (cases "created_of (fst (step U e s))")
     (auto simp: counts_for_def List.map_filter_simps submissions_def)

lemma length_counts_for_run:
  "length (counts_for W (fst (run U evs s))) = submissions W evs"
proof (induction evs arbitrary: s)
  case Nil
  show ?case by (simp add: counts_for_def List.map_filter_simps submissions_def)
next
  case (Cons e evs)
  have "fst (run U (e # evs) s) = fst (step U e s) # fst (run U evs (snd (step U e s)))"
    by (simp add: split_beta)
  then have "length (counts_for W (fst (run U (e # evs) s))) =
               length (counts_for W [fst (step U e s)])
               + length (counts_for W (fst (run U evs (snd (step U e s)))))"
    by (simp only: counts_for_Cons [of W "fst (step U e s)" "fst (run U evs (snd (step U e s)))"] length_append)
  also have "\<dots> = submissions W [e] + submissions W evs"
    by (simp only: length_counts_for_step Cons.IH)
  also have "\<dots> = submissions W (e # evs)"
    by (simp add: submissions_def)
  finally show ?case .
qed

lemma resolve_history:
  "dialogHistory (resolve_closure p r now s) =
     (dialogHistory s)(pd_workspace p \<mapsto>
        pd_history p @ [\<lparr>h_timestamp = now, h_reason = pd_reason p,
                          h_userInput = userInput r, h_continued = shouldContinue r\<rparr>])"
  by (simp add: resolve_closure_def)

lemma respondToDialog_history:
  "map_of (pendingDialogs s) i = Some p \<Longrightarrow>
   dialogHistory (snd (snd (respondToDialog i sc ui atts now s))) =
     (dialogHistory s)(pd_workspace p \<mapsto>
        pd_history p @ [\<lparr>h_timestamp = now, h_reason = pd_reason p,
                          h_userInput = ui, h_continued = sc\<rparr>])"
  by (simp add: respondToDialog_present resolve_history)

lemma post_respond_history:
  "map_of (pendingDialogs s) i = Some p \<Longrightarrow> js_or (rb_id b) (rb_dialogId b) = Some (JStr i) \<Longrightarrow>
   dialogHistory (snd (snd (post_respond (Some b) now s))) =
     (dialogHistory s)(pd_workspace p \<mapsto>
        pd_history p @ [\<lparr>h_timestamp = now, h_reason = pd_reason p,
                          h_userInput = rb_userInput b, h_continued = rb_shouldContinue b\<rparr>])"
  by (simp add: post_respond_present resolve_history)

lemma step_version: "version (snd (step U e s)) = version s"
proof (cases e)
  case (PostDialog body d)
  show ?thesis
  proof (cases body)
    case None
    with PostDialog show ?thesis by (simp add: post_dialog_None)
  next
    case (Some rw)
    with PostDialog show ?thesis
      by (cases rw) (simp add: post_dialog_eq callDialogInternal_eq)
  qed
next
  case (PostRespond body now)
  then show ?thesis
    by (simp add: split_beta post_respond_def resolve_closure_def Let_def split: option.splits)
next
  case (RespondToDialog d sc ui atts now)
  then show ?thesis
    by (simp add: split_beta respondToDialog_def resolve_closure_def Let_def split: option.splits)
next
  case (McpRequest rq d)
  then show ?thesis
    by (simp add: split_beta handleMCPRequest_def callDialogInternal_eq)
qed simp_all

lemma run_version: "version (snd (run U evs s)) = version s"
  by (induction evs arbitrary: s) (simp_all add: split_beta step_version)

lemma no_empty_id: "fresh_id_of e \<noteq> Some []"
  by (cases e) simp_all

lemma post_respond_as_respondToDialog:
  "js_or (rb_id b) (rb_dialogId b) = Some (JStr k) \<Longrightarrow>
   post_respond (Some b) now s =
     (case respondToDialog k (rb_shouldContinue b) (rb_userInput b) (rb_attachments b) now s of
        (ok, u, s') \<Rightarrow> (if ok then RespondSuccess else RespondNotFound, u, s'))"
  by (simp add: post_respond_def respondToDialog_def pendingDialogs_get_def
      pendingDialogs_delete_def Let_def split: option.splits)

lemma post_respond_not_string:
  "\<forall>k. js_or (rb_id b) (rb_dialogId b) \<noteq> Some (JStr k) \<Longrightarrow>
   post_respond (Some b) now s = (RespondNotFound, None, s)"
  by (simp add: post_respond_def pendingDialogs_get_def Let_def split: option.splits json.splits)

subsection \<open>Paths and the pending list\<close>

lemma startsWith_iff: "startsWith s p \<longleftrightarrow> (\<exists>rest. s = p @ rest)"
proof
  assume "startsWith s p"
  then have "s = p @ drop (length p) s"
    by (metis append_take_drop_id startsWith_def)
  then show "\<exists>rest. s = p @ rest" ..
next
  assume "\<exists>rest. s = p @ rest"
  then show "startsWith s p" by (auto simp: startsWith_def)
qed

lemma workspace_matches_iff:
  "workspace_matches U d w \<longleftrightarrow>
     (let d' = map (\<lambda>c. if c = CHR 0x5C then CHR ''/'' else c) (toLowerCase U d);
          w' = map (\<lambda>c. if c = CHR 0x5C then CHR ''/'' else c) (toLowerCase U w)
      in d' = w' \<or> (\<exists>rest. d' = w' @ ''/'' @ rest) \<or> (\<exists>rest. w' = d' @ ''/'' @ rest))"
  by (simp add: workspace_matches_def normalize_path_def replace_backslashes_def Let_def
      startsWith_iff)

lemma get_pending_None:
  "get_pending U None s =
     map (\<lambda>(k, p). \<lparr>pi_id = pd_id p, pi_reason = pd_reason p, pi_workspace = pd_workspace p\<rparr>)
         (pendingDialogs s)"
  by (simp add: get_pending_def case_prod_unfold)

lemma get_pending_Some:
  "w \<noteq> [] \<Longrightarrow>
   get_pending U (Some w) s =
     filter (\<lambda>info. workspace_matches U (pi_workspace info) w) (get_pending U None s)"
  by (simp add: get_pending_def)

lemma get_pending_empty: "get_pending U (Some []) s = get_pending U None s"
  by (simp add: get_pending_def)

subsection \<open>The text of a tool result\<close>

lemma foldl_append_concat:
  "foldl (\<lambda>acc x. acc @ f x) init xs = init @ concat (map f xs)"
  by (induction xs arbitrary: init) simp_all

lemma concat_map_contains:
  assumes "a \<in> set xs" and "f a = l @ c @ r"
  shows "\<exists>pre post. concat (map f xs) = pre @ c @ post"
proof -
  obtain ys zs where "xs = ys @ a # zs"
    using assms(1) by (meson split_list)
  then have "concat (map f xs) = (concat (map f ys) @ l) @ c @ (r @ concat (map f zs))"
    using assms(2) by simp
  then show ?thesis by blast
qed

lemma render_attachment_content:
  assumes "att_type a \<noteq> Image"
  shows "\<exists>l r. render_attachment a = l @ att_content a @ r"
proof (cases "att_type a")
  case Image
  with assms show ?thesis by simp
next
  case File
  then have "render_attachment a =
               (txt_file @ att_name a @ txt_file_content) @ att_content a @ [CHR 0x0A]"
    by (simp add: render_attachment_def)
  then show ?thesis by blast
next
  case Code
  then have "render_attachment a =
               (txt_code @ att_name a @ txt_fence) @ att_content a @ txt_fence"
    by (simp add: render_attachment_def)
  then show ?thesis by blast
qed

lemma sse_render_attachment_content:
  assumes "att_type a \<noteq> Image"
  shows "\<exists>l r. sse_render_attachment a = l @ att_content a @ r"
proof (cases "att_type a")
  case Image
  with assms show ?thesis by simp
next
  case File
  then have "sse_render_attachment a =
               (txt_file @ att_name a @ txt_file_content) @ att_content a @ [CHR 0x0A]"
    by (simp add: sse_render_attachment_def)
  then show ?thesis by blast
next
  case Code
  then have "sse_render_attachment a =
               (txt_code @ att_name a @ txt_fence) @ att_content a @ txt_fence"
    by (simp add: sse_render_attachment_def)
  then show ?thesis by blast
qed

lemma resultText_continue:
  "shouldContinue r \<Longrightarrow>
   resultText r =
     txt_continue_pre @ userInput r @ txt_continue_post @
       (case attachments r of
          None \<Rightarrow> []
        | Some atts \<Rightarrow> if atts = [] then [] else txt_attachments @ concat (map render_attachment atts))"
  by (simp add: resultText_def Let_def foldl_append_concat split: option.splits)

lemma sse_resultText_continue:
  "shouldContinue r \<Longrightarrow>
   sse_resultText r =
     txt_continue_pre @ userInput r @ txt_continue_post @
       (case attachments r of
          None \<Rightarrow> []
        | Some atts \<Rightarrow> if atts = [] then [] else txt_attachments @ concat (map sse_render_attachment atts))"
  by (simp add: sse_resultText_def Let_def foldl_append_concat split: option.splits)

lemma continue_text_contains:
  assumes "attachments r = Some atts" and "a \<in> set atts"
    and "\<exists>l r. f a = l @ att_content a @ r"
  shows "\<exists>pre post.
           txt_continue_pre @ userInput r @ txt_continue_post @
             (case attachments r of
                None \<Rightarrow> []
              | Some atts \<Rightarrow> if atts = [] then [] else txt_attachments @ concat (map f atts))
           = pre @ att_content a @ post"
proof -
  obtain l r' where "f a = l @ att_content a @ r'" using assms(3) by blast
  then obtain pre post where c: "concat (map f atts) = pre @ att_content a @ post"
    using concat_map_contains [OF assms(2)] by blast
  have "atts \<noteq> []" using assms(2) by auto
  then have "txt_continue_pre @ userInput r @ txt_continue_post @
             (case attachments r of
                None \<Rightarrow> []
              | Some atts \<Rightarrow> if atts = [] then [] else txt_attachments @ concat (map f atts))
           = (txt_continue_pre @ userInput r @ txt_continue_post @ txt_attachments @ pre)
               @ att_content a @ post"
    using assms(1) c by simp
  then show ?thesis by blast
qed

lemma tools_call_end_to_end:
  assumes "rq_method rq = Some ''tools/call''" and "rq_name rq = Some ''AI_chat_HITL''"
  shows "\<exists>c s1 s2.
           handleMCPRequest rq stamp s = (Suspended c, s1)
         \<and> respondToDialog (''dialog_'' @ stamp) (shouldContinue r) (userInput r) (attachments r)
               now s1 = (True, Some (ToolsCall (rq_id rq), r), s2)"
proof -
  let ?call = "callDialogInternal (or_empty (rq_reason rq)) (or_empty (rq_workspace rq))
                 stamp (ToolsCall (rq_id rq)) s"
  have h: "handleMCPRequest rq stamp s = (Suspended (fst ?call), snd ?call)"
    by (rule handleMCPRequest_call [OF assms])
  have "map_of (pendingDialogs (snd ?call)) (''dialog_'' @ stamp) =
          Some \<lparr>pd_id = ''dialog_'' @ stamp, pd_reason = or_empty (rq_reason rq),
                 pd_workspace = or_empty (rq_workspace rq),
                 pd_history = history_of s (or_empty (rq_workspace rq)),
                 pd_waiter = ToolsCall (rq_id rq)\<rparr>"
    by (simp add: pending_callDialogInternal update_conv')
  then have "\<exists>s2. respondToDialog (''dialog_'' @ stamp) (shouldContinue r) (userInput r)
                    (attachments r) now (snd ?call) = (True, Some (ToolsCall (rq_id rq), r), s2)"
    by (simp add: respondToDialog_present)
  with h show ?thesis by blast
qed

subsection \<open>The concrete inputs, evaluated\<close>

lemmas eval_defs = callDialogInternal_def handleMCPRequest_def respondToDialog_def
  resolve_closure_def post_respond_def post_dialog_def new_MCPServer_def tool_call_def
  or_empty_def history_of_def count_of_def Let_def

lemma ex_pending_eval:
  "pendingDialogs ex_pending =
     [(''dialog_1'', \<lparr>pd_id = ''dialog_1'', pd_reason = ''done'', pd_workspace = ''/proj'', pd_history = [],
               pd_waiter = ToolsCall (Some (JNum 7))\<rparr>)]"
  by (simp add: ex_pending_def callDialogInternal_def setDialogRequestHandler_def new_MCPServer_def Let_def)

lemma ex_overlap_before_eval:
  "ex_overlap_before =
     \<lparr>pendingDialogs = [(''dialog_2'', \<lparr>pd_id = ''dialog_2'', pd_reason = ''second'', pd_workspace = ''/proj'',
                                  pd_history = [], pd_waiter = ToolsCall (Some (JNum 2))\<rparr>)],
      dialogHistory = [''/proj'' \<mapsto> [\<lparr>h_timestamp = 10, h_reason = ''first'', h_userInput = ''a'',
                                        h_continued = True\<rparr>]],
      dialogCounts = [''/proj'' \<mapsto> 2],
      onDialogRequest = False, version = ''1.5.0''\<rparr>"
  by (simp add: ex_overlap_before_def ex_overlap_events_def eval_defs numeral_2_eq_2)

lemma ex_case_final_eval:
  "ex_case_final =
     \<lparr>pendingDialogs = [],
      dialogHistory = [''/Proj'' \<mapsto> [\<lparr>h_timestamp = 10, h_reason = ''first'', h_userInput = ''a'',
                                        h_continued = True\<rparr>],
                       ''/proj'' \<mapsto> [\<lparr>h_timestamp = 20, h_reason = ''second'', h_userInput = ''b'',
                                        h_continued = True\<rparr>]],
      dialogCounts = [''/Proj'' \<mapsto> 1, ''/proj'' \<mapsto> 1],
      onDialogRequest = False, version = ''1.5.0''\<rparr>"
  by (simp add: ex_case_final_def ex_case_events_def eval_defs)

lemma normalize_path_ex:
  "normalize_path U ''/Proj'' = ''/proj''" "normalize_path U ''/proj'' = ''/proj''"
  by (simp_all add: normalize_path_def toLowerCase_def toLowerCase_ascii_def is_ascii_def
      replace_backslashes_def)

lemma ex_case_pending_eval:
  "ex_case_pending =
     \<lparr>pendingDialogs = [(''dialog_1'', ex_d1), (''dialog_2'', ex_d2)],
      dialogHistory = Map.empty,
      dialogCounts = [''/Proj'' \<mapsto> 1, ''/proj'' \<mapsto> 1],
      onDialogRequest = False, version = ''1.5.0''\<rparr>"
  by (simp add: ex_case_pending_def ex_case_events_def eval_defs ex_d1_def ex_d2_def)

lemma ex_third_eval:
  "step ex_lower ex_third ex_case_pending =
     (McpOut (Suspended \<lparr>cr_dialog = ex_d3, cr_history = [], cr_count = 2, cr_notified = False\<rparr>),
      \<lparr>pendingDialogs = [(''dialog_1'', ex_d1), (''dialog_2'', ex_d2), (''dialog_3'', ex_d3)],
      dialogHistory = Map.empty,
      dialogCounts = [''/proj'' \<mapsto> 1, ''/Proj'' \<mapsto> 2],
      onDialogRequest = False, version = ''1.5.0''\<rparr>)"
  by (simp add: ex_third_def ex_case_pending_eval eval_defs ex_d3_def numeral_2_eq_2)

lemmas path_defs = normalize_path_def toLowerCase_def toLowerCase_ascii_def is_ascii_def
  replace_backslashes_def startsWith_def

lemma toLowerCase_letters:
  "toLowerCase U ''/ABCDEFGHIJKLMNOPQRSTUVWXYZ az_09.'' = ''/abcdefghijklmnopqrstuvwxyz az_09.''"
  by (simp add: toLowerCase_def toLowerCase_ascii_def is_ascii_def)

lemma workspace_matches_backslash:
  "workspace_matches U (''C:'' @ [CHR 0x5C] @ ''Proj'' @ [CHR 0x5C] @ ''Sub'') ''c:/proj''"
  "workspace_matches U ''c:/proj/sub'' (''C:'' @ [CHR 0x5C] @ ''Proj'')"
  "\<not> workspace_matches U (''C:'' @ [CHR 0x5C] @ ''Project'') ''c:/proj''"
  by (simp_all add: workspace_matches_def path_defs)

lemma shouldClaim_examples:
  "shouldClaim U ''/a/b'' (Some [''/a''])"
  "shouldClaim U ''/a'' (Some [''/a/b''])"
  "shouldClaim U ''/a'' (Some [])"
  "shouldClaim U ''/a'' None"
  "\<not> shouldClaim U ''/x'' (Some [''/a''])"
  "shouldClaim U (''C:'' @ [CHR 0x5C] @ ''Proj'' @ [CHR 0x5C] @ ''Sub'') (Some [''/x'', ''c:/proj''])"
  by (simp_all add: shouldClaim_def path_defs)

lemma ex_routing_pending:
  "get_pending U None ex_routing =
     [\<lparr>pi_id = ''dialog_1'', pi_reason = ''r1'', pi_workspace = ''/a/b''\<rparr>,
      \<lparr>pi_id = ''dialog_2'', pi_reason = ''r2'', pi_workspace = ''/x''\<rparr>,
      \<lparr>pi_id = ''dialog_3'', pi_reason = ''r3'', pi_workspace = ''/A''\<rparr>,
      \<lparr>pi_id = ''dialog_4'', pi_reason = ''r4'', pi_workspace = ex_win_path\<rparr>,
      \<lparr>pi_id = ''dialog_5'', pi_reason = ''r5'', pi_workspace = ex_ecole_upper\<rparr>]"
  by (simp add: ex_routing_def get_pending_def post_dialog_def Let_def new_MCPServer_def)

section \<open>Resolution happens at most once\<close>

text \<open>
  Claim C1. For every dialog id, resolution succeeds at most once. A resolve call
  (\<^verbatim>\<open>respondToDialog\<close>, or \<^verbatim>\<open>POST /respond\<close> whose body names the id) for an id that is
  not pending returns the not-found answer and returns the state it was given, so the
  pending set, the history and the counters are all unchanged. A resolve call for a
  pending id succeeds, wakes the continuation stored with the entry with exactly the
  payload of the call, and deletes that key from the pending map. After such a success,
  whatever requests the server handles next, as long as none of them creates a dialog
  under the same id again, every further resolve call for the id is answered not-found
  and leaves the state as it found it.
\<close>

theorem C1_resolve_at_most_once:
  "(map_of (pendingDialogs s) i = None \<longrightarrow>
      respondToDialog i sc ui atts now s = (False, None, s))
   \<and> (pendingDialogs_get (pendingDialogs s) (js_or (rb_id b) (rb_dialogId b)) = None \<longrightarrow>
      post_respond (Some b) now s = (RespondNotFound, None, s))
   \<and> (map_of (pendingDialogs s) i = Some p \<longrightarrow>
      (\<exists>s'. respondToDialog i sc ui atts now s =
               (True, Some (pd_waiter p, \<lparr>shouldContinue = sc, userInput = ui, attachments = atts\<rparr>), s')
          \<and> pendingDialogs s' = AList.delete i (pendingDialogs s)
          \<and> ((\<forall>e\<in>set evs. fresh_id_of e \<noteq> Some i) \<longrightarrow>
               (let s'' = snd (run U evs s') in
                  respondToDialog i sc_later ui_later atts_later now_later s'' = (False, None, s'')
                \<and> (js_or (rb_id b_later) (rb_dialogId b_later) = Some (JStr i) \<longrightarrow>
                     post_respond (Some b_later) now_later s'' = (RespondNotFound, None, s''))))))
   \<and> (map_of (pendingDialogs s) i = Some p \<and> js_or (rb_id b) (rb_dialogId b) = Some (JStr i) \<longrightarrow>
      (\<exists>s'. post_respond (Some b) now s =
               (RespondSuccess,
                Some (pd_waiter p, \<lparr>shouldContinue = rb_shouldContinue b,
                                     userInput = rb_userInput b,
                                     attachments = rb_attachments b\<rparr>), s')
          \<and> pendingDialogs s' = AList.delete i (pendingDialogs s)
          \<and> ((\<forall>e\<in>set evs. fresh_id_of e \<noteq> Some i) \<longrightarrow>
               (let s'' = snd (run U evs s') in
                  respondToDialog i sc_later ui_later atts_later now_later s'' = (False, None, s'')
                \<and> (js_or (rb_id b_later) (rb_dialogId b_later) = Some (JStr i) \<longrightarrow>
                     post_respond (Some b_later) now_later s'' = (RespondNotFound, None, s''))))))"
proof -
  have later: "let s'' = snd (run U evs s') in
                  respondToDialog i sc_later ui_later atts_later now_later s'' = (False, None, s'')
                \<and> (js_or (rb_id b_later) (rb_dialogId b_later) = Some (JStr i) \<longrightarrow>
                     post_respond (Some b_later) now_later s'' = (RespondNotFound, None, s''))"
    if "pendingDialogs s' = AList.delete i (pendingDialogs s)"
      and "\<forall>e\<in>set evs. fresh_id_of e \<noteq> Some i" for s'
  proof -
    have "map_of (pendingDialogs s') i = None"
      using that(1) by (simp add: delete_conv')
    then have "map_of (pendingDialogs (snd (run U evs s'))) i = None"
      using that(2) by (rule run_absent)
    then show ?thesis
      by (simp add: Let_def respondToDialog_absent post_respond_absent)
  qed
  have first: "\<exists>s'. respondToDialog i sc ui atts now s =
               (True, Some (pd_waiter p, \<lparr>shouldContinue = sc, userInput = ui, attachments = atts\<rparr>), s')
          \<and> pendingDialogs s' = AList.delete i (pendingDialogs s)"
    if "map_of (pendingDialogs s) i = Some p"
    by (simp add: respondToDialog_present [OF that] resolve_closure_def)
  have http: "\<exists>s'. post_respond (Some b) now s =
               (RespondSuccess,
                Some (pd_waiter p, \<lparr>shouldContinue = rb_shouldContinue b,
                                     userInput = rb_userInput b,
                                     attachments = rb_attachments b\<rparr>), s')
          \<and> pendingDialogs s' = AList.delete i (pendingDialogs s)"
    if "map_of (pendingDialogs s) i = Some p" and "js_or (rb_id b) (rb_dialogId b) = Some (JStr i)"
    by (simp add: post_respond_present [OF that(2) that(1)] resolve_closure_def)
  show ?thesis
    using respondToDialog_absent [of s i sc ui atts now] post_respond_absent [of s b now]
      first http later
    by blast
qed

text \<open>The theorem at a server with one pending dialog \<open>dialog_1\<close>, resolved through either entry point.\<close>

theorem C1_resolve_at_most_once_witness:
  "map_of (pendingDialogs ex_pending) ''dialog_2'' = None
   \<and> respondToDialog ''dialog_2'' True ''x'' None 5 ex_pending = (False, None, ex_pending)
   \<and> post_respond (Some (ex_body ''dialog_2'')) 5 ex_pending = (RespondNotFound, None, ex_pending)
   \<and> (\<exists>s'. respondToDialog ''dialog_1'' True ''keep going'' None 5 ex_pending =
              (True, Some (ToolsCall (Some (JNum 7)),
                           \<lparr>shouldContinue = True, userInput = ''keep going'', attachments = None\<rparr>), s')
          \<and> pendingDialogs s' = []
          \<and> (let s'' = snd (run ex_lower [GetPending None, PostDialog (Some (''r'', ''/proj'')) ''3''] s') in
               respondToDialog ''dialog_1'' False [] None 6 s'' = (False, None, s'')
               \<and> post_respond (Some (ex_body ''dialog_1'')) 6 s'' = (RespondNotFound, None, s'')))
   \<and> (\<exists>s'. post_respond (Some (ex_body ''dialog_1'')) 5 ex_pending =
              (RespondSuccess, Some (ToolsCall (Some (JNum 7)),
                           \<lparr>shouldContinue = True, userInput = ''keep going'', attachments = None\<rparr>), s')
          \<and> pendingDialogs s' = []
          \<and> (let s'' = snd (run ex_lower [GetPending None, PostDialog (Some (''r'', ''/proj'')) ''3''] s') in
               respondToDialog ''dialog_1'' False [] None 6 s'' = (False, None, s'')
               \<and> post_respond (Some (ex_body ''dialog_1'')) 6 s'' = (RespondNotFound, None, s'')))"
  using C1_resolve_at_most_once [where U = ex_lower and s = ex_pending and i = "''dialog_2''" and sc = True and ui = "''x''"
      and atts = None and now = 5 and b = "ex_body ''dialog_2''"]
    C1_resolve_at_most_once [where U = ex_lower and s = ex_pending and i = "''dialog_1''" and sc = True
      and ui = "''keep going''" and atts = None and now = 5 and b = "ex_body ''dialog_1''"
      and p = "\<lparr>pd_id = ''dialog_1'', pd_reason = ''done'', pd_workspace = ''/proj'', pd_history = [],
               pd_waiter = ToolsCall (Some (JNum 7))\<rparr>"
      and evs = "[GetPending None, PostDialog (Some (''r'', ''/proj'')) ''3'']"
      and sc_later = False and ui_later = "[]" and atts_later = None and now_later = 6 and b_later = "ex_body ''dialog_1''"]
  by (simp add: ex_pending_eval ex_body_def js_or_def)

section \<open>The history of a workspace\<close>

text \<open>
  Claim C2 says that the history of a workspace is append-only: a resolution leaves the
  sequence that was there immediately before it, with one entry added at the end, so that
  two dialogs of one workspace that are pending together both end up in the history.
  The closure appends to the array it read when its dialog was created, not to the
  array stored at the time of the resolution. Run on a new server: two tool calls for
  \<open>/proj\<close> create \<open>dialog_1\<close> and \<open>dialog_2\<close>, then \<open>dialog_1\<close> is resolved; the history
  of \<open>/proj\<close> now holds the entry of \<open>dialog_1\<close>. Resolving \<open>dialog_2\<close> succeeds and leaves
  a history of one entry, that of \<open>dialog_2\<close>: the entry of \<open>dialog_1\<close> is gone.
\<close>

theorem C2_history_lost_update:
  "history_of ex_overlap_before ''/proj'' =
     [\<lparr>h_timestamp = 10, h_reason = ''first'', h_userInput = ''a'', h_continued = True\<rparr>]
   \<and> respondToDialog ''dialog_2'' True ''b'' None 20 ex_overlap_before =
       (True, Some (ToolsCall (Some (JNum 2)),
                    \<lparr>shouldContinue = True, userInput = ''b'', attachments = None\<rparr>),
        ex_overlap_after)
   \<and> history_of ex_overlap_after ''/proj'' =
     [\<lparr>h_timestamp = 20, h_reason = ''second'', h_userInput = ''b'', h_continued = True\<rparr>]
   \<and> history_of ex_overlap_after ''/proj'' \<noteq>
       history_of ex_overlap_before ''/proj''
         @ [\<lparr>h_timestamp = 20, h_reason = ''second'', h_userInput = ''b'', h_continued = True\<rparr>]"
  by (simp add: ex_overlap_after_def ex_overlap_before_eval eval_defs)

section \<open>The key of the ledger\<close>

text \<open>
  Claim C3 says that history and counter are kept under the normalized workspace path, so
  that two spellings of one path share them. The maps are read and written under the
  string as it was submitted. On a new server, one dialog for \<open>/Proj\<close> and one for
  \<open>/proj\<close>, both resolved: the two strings normalize to the same path, each dialog was
  given the count 1, each string has its own counter standing at 1 and its own history of
  length 1, and the two histories differ.
\<close>

theorem C3_counterexample:
  "normalize_path ex_lower ''/Proj'' = normalize_path ex_lower ''/proj''
   \<and> counts_for ''/Proj'' (fst (run ex_lower ex_case_events new_MCPServer)) = [1]
   \<and> counts_for ''/proj'' (fst (run ex_lower ex_case_events new_MCPServer)) = [1]
   \<and> count_of ex_case_final ''/Proj'' = 1
   \<and> count_of ex_case_final ''/proj'' = 1
   \<and> length (history_of ex_case_final ''/Proj'') = 1
   \<and> length (history_of ex_case_final ''/proj'') = 1
   \<and> history_of ex_case_final ''/Proj'' \<noteq> history_of ex_case_final ''/proj''"
  by (simp add: normalize_path_ex ex_case_final_eval history_of_def count_of_def)
     (simp add: ex_case_events_def eval_defs counts_for_def List.map_filter_simps)

text \<open>
  Claim C3, amended. History and counter are keyed by the workspace string exactly as it
  was submitted. For two different strings \<open>w1\<close> and \<open>w2\<close>, whether or not they normalize
  to the same path: over any run each counter grows by the number of dialogs created under
  its own string; creating a dialog under \<open>w1\<close> sets the counter of \<open>w1\<close>, leaves the counter
  of \<open>w2\<close> alone and captures the history stored under \<open>w1\<close>; resolving a dialog created
  under \<open>w1\<close> stores its history under \<open>w1\<close> and leaves the history under \<open>w2\<close> alone.
\<close>

theorem C3_ledger_keyed_by_exact_string:
  assumes "w1 \<noteq> w2"
  shows
  "count_of (snd (run U evs s)) w1 = count_of s w1 + length (counts_for w1 (fst (run U evs s)))
   \<and> count_of (snd (run U evs s)) w2 = count_of s w2 + length (counts_for w2 (fst (run U evs s)))
   \<and> (created_of (fst (step U e s)) = Some c \<and> pd_workspace (cr_dialog c) = w1 \<longrightarrow>
        dialogCounts (snd (step U e s)) w1 = Some (count_of s w1 + 1)
        \<and> dialogCounts (snd (step U e s)) w2 = dialogCounts s w2
        \<and> cr_history c = history_of s w1)
   \<and> (map_of (pendingDialogs s) i = Some p \<and> pd_workspace p = w1 \<longrightarrow>
        history_of (snd (snd (respondToDialog i sc ui atts now s))) w1 =
          pd_history p @ [\<lparr>h_timestamp = now, h_reason = pd_reason p,
                            h_userInput = ui, h_continued = sc\<rparr>]
        \<and> dialogHistory (snd (snd (respondToDialog i sc ui atts now s))) w2 = dialogHistory s w2
        \<and> (js_or (rb_id b) (rb_dialogId b) = Some (JStr i) \<longrightarrow>
             history_of (snd (snd (post_respond (Some b) now s))) w1 =
               pd_history p @ [\<lparr>h_timestamp = now, h_reason = pd_reason p,
                                 h_userInput = rb_userInput b, h_continued = rb_shouldContinue b\<rparr>]
             \<and> dialogHistory (snd (snd (post_respond (Some b) now s))) w2 = dialogHistory s w2))"
proof -
  have counts1: "count_of (snd (run U evs s)) w1 = count_of s w1 + length (counts_for w1 (fst (run U evs s)))"
    and counts2: "count_of (snd (run U evs s)) w2 = count_of s w2 + length (counts_for w2 (fst (run U evs s)))"
    using run_counts by blast+
  have created: "dialogCounts (snd (step U e s)) w1 = Some (count_of s w1 + 1)
        \<and> dialogCounts (snd (step U e s)) w2 = dialogCounts s w2
        \<and> cr_history c = history_of s w1"
    if "created_of (fst (step U e s)) = Some c" and "pd_workspace (cr_dialog c) = w1"
    using step_created(1,2,4) [OF that(1)] that(2) assms by simp
  have resolved: "history_of (snd (snd (respondToDialog i sc ui atts now s))) w1 =
          pd_history p @ [\<lparr>h_timestamp = now, h_reason = pd_reason p,
                            h_userInput = ui, h_continued = sc\<rparr>]
        \<and> dialogHistory (snd (snd (respondToDialog i sc ui atts now s))) w2 = dialogHistory s w2"
    if "map_of (pendingDialogs s) i = Some p" and "pd_workspace p = w1"
    using that(2) assms by (simp add: respondToDialog_history [OF that(1)] history_of_def)
  have http: "history_of (snd (snd (post_respond (Some b) now s))) w1 =
               pd_history p @ [\<lparr>h_timestamp = now, h_reason = pd_reason p,
                                 h_userInput = rb_userInput b, h_continued = rb_shouldContinue b\<rparr>]
             \<and> dialogHistory (snd (snd (post_respond (Some b) now s))) w2 = dialogHistory s w2"
    if "map_of (pendingDialogs s) i = Some p" and "pd_workspace p = w1"
      and "js_or (rb_id b) (rb_dialogId b) = Some (JStr i)"
    using that(2) assms by (simp add: post_respond_history [OF that(1) that(3)] history_of_def)
  show ?thesis
    using counts1 counts2 created resolved http by blast
qed

text \<open>The amended statement at \<open>/Proj\<close> and \<open>/proj\<close>.\<close>

theorem C3_ledger_keyed_by_exact_string_witness:
  "''/Proj'' \<noteq> ''/proj''
   \<and> normalize_path ex_lower ''/Proj'' = normalize_path ex_lower ''/proj''
   \<and> count_of (snd (run ex_lower [ex_third] ex_case_pending)) ''/Proj'' = 2
   \<and> count_of (snd (run ex_lower [ex_third] ex_case_pending)) ''/proj'' = 1
   \<and> dialogCounts (snd (step ex_lower ex_third ex_case_pending)) ''/proj'' = Some 1
   \<and> history_of (snd (snd (respondToDialog ''dialog_1'' True ''a'' None 10 ex_case_pending))) ''/Proj'' =
        [\<lparr>h_timestamp = 10, h_reason = ''first'', h_userInput = ''a'', h_continued = True\<rparr>]
   \<and> dialogHistory (snd (snd (respondToDialog ''dialog_1'' True ''a'' None 10 ex_case_pending))) ''/proj'' = None
   \<and> history_of (snd (snd (post_respond (Some (ex_body ''dialog_1'')) 10 ex_case_pending))) ''/Proj'' =
        [\<lparr>h_timestamp = 10, h_reason = ''first'', h_userInput = ''keep going'', h_continued = True\<rparr>]
   \<and> dialogHistory (snd (snd (post_respond (Some (ex_body ''dialog_1'')) 10 ex_case_pending))) ''/proj'' = None"
proof -
  have distinct: "''/Proj'' \<noteq> ''/proj''" by simp
  have created: "created_of (fst (step ex_lower ex_third ex_case_pending)) =
                   Some \<lparr>cr_dialog = ex_d3, cr_history = [], cr_count = 2, cr_notified = False\<rparr>
                 \<and> pd_workspace (cr_dialog \<lparr>cr_dialog = ex_d3, cr_history = [], cr_count = 2,
                                              cr_notified = False\<rparr>) = ''/Proj''"
    by (simp add: ex_third_eval ex_d3_def)
  have pending: "map_of (pendingDialogs ex_case_pending) ''dialog_1'' = Some ex_d1
                 \<and> pd_workspace ex_d1 = ''/Proj''"
    by (simp add: ex_case_pending_eval ex_d1_def)
  have body: "js_or (rb_id (ex_body ''dialog_1'')) (rb_dialogId (ex_body ''dialog_1'')) = Some (JStr ''dialog_1'')"
    by (simp add: ex_body_def js_or_def)
  have outs: "counts_for ''/Proj'' (fst (run ex_lower [ex_third] ex_case_pending)) = [2]"
    "counts_for ''/proj'' (fst (run ex_lower [ex_third] ex_case_pending)) = []"
    by (simp_all add: ex_third_eval counts_for_def List.map_filter_simps ex_d3_def)
  have start: "count_of ex_case_pending ''/Proj'' = 1" "count_of ex_case_pending ''/proj'' = 1"
    "dialogCounts ex_case_pending ''/proj'' = Some 1" "dialogHistory ex_case_pending ''/proj'' = None"
    by (simp_all add: ex_case_pending_eval count_of_def)
  note inst = C3_ledger_keyed_by_exact_string [OF distinct, where U = ex_lower and s = ex_case_pending
        and evs = "[ex_third]" and e = ex_third
        and c = "\<lparr>cr_dialog = ex_d3, cr_history = [], cr_count = 2, cr_notified = False\<rparr>"
        and i = "''dialog_1''" and p = ex_d1 and b = "ex_body ''dialog_1''"
        and sc = True and ui = "''a''" and atts = None and now = 10]
  have counts: "count_of (snd (run ex_lower [ex_third] ex_case_pending)) ''/Proj'' = 2"
    "count_of (snd (run ex_lower [ex_third] ex_case_pending)) ''/proj'' = 1"
    using inst unfolding outs start by simp_all
  have other: "dialogCounts (snd (step ex_lower ex_third ex_case_pending)) ''/proj'' = Some 1"
    using inst created unfolding start by blast
  have resolved:
    "history_of (snd (snd (respondToDialog ''dialog_1'' True ''a'' None 10 ex_case_pending))) ''/Proj'' =
       pd_history ex_d1 @ [\<lparr>h_timestamp = 10, h_reason = pd_reason ex_d1, h_userInput = ''a'',
                             h_continued = True\<rparr>]"
    "dialogHistory (snd (snd (respondToDialog ''dialog_1'' True ''a'' None 10 ex_case_pending))) ''/proj'' = None"
    "history_of (snd (snd (post_respond (Some (ex_body ''dialog_1'')) 10 ex_case_pending))) ''/Proj'' =
       pd_history ex_d1 @ [\<lparr>h_timestamp = 10, h_reason = pd_reason ex_d1,
                             h_userInput = rb_userInput (ex_body ''dialog_1''),
                             h_continued = rb_shouldContinue (ex_body ''dialog_1'')\<rparr>]"
    "dialogHistory (snd (snd (post_respond (Some (ex_body ''dialog_1'')) 10 ex_case_pending))) ''/proj'' = None"
    using inst pending body unfolding start by blast+
  show ?thesis
    using distinct counts other resolved
    by (simp add: normalize_path_ex ex_d1_def ex_body_def)
qed

section \<open>Counts are handed out in order\<close>

text \<open>
  Claim C4. For every workspace string \<open>W\<close> and every run of the server, whatever other
  requests are interleaved, the dialogs created for \<open>W\<close> are given, in the order of their
  creation, the counts \<open>c + 1, ..., c + N\<close>, where \<open>c\<close> is the counter of \<open>W\<close> at the start
  and \<open>N\<close> the number of submissions for \<open>W\<close> in the run; on a new server these are
  \<open>1, ..., N\<close>. Whenever a request creates a dialog, the count it reports has already been
  stored as the counter of the dialog's workspace, and the dialog is in the pending map,
  in the state in which the handler is called and which every later request sees.
  Counts are natural numbers here; the doubles of the source are exact up to \<open>2^53\<close>.
\<close>

theorem C4_sequence_counts:
  "counts_for W (fst (run U evs s)) = map (\<lambda>k. count_of s W + Suc k) [0 ..< submissions W evs]
   \<and> counts_for W (fst (run U evs new_MCPServer)) = [1 ..< Suc (submissions W evs)]
   \<and> (created_of (fst (step U e s)) = Some c \<longrightarrow>
        cr_count c = count_of s (pd_workspace (cr_dialog c)) + 1
      \<and> dialogCounts (snd (step U e s)) (pd_workspace (cr_dialog c)) = Some (cr_count c)
      \<and> map_of (pendingDialogs (snd (step U e s))) (pd_id (cr_dialog c)) = Some (cr_dialog c))"
proof -
  have general: "counts_for W (fst (run U evs t)) =
                   map (\<lambda>k. count_of t W + Suc k) [0 ..< submissions W evs]" for t
    using run_counts [of W U evs t] by (simp only: length_counts_for_run)
  have "count_of new_MCPServer W = 0"
    by (simp add: count_of_def new_MCPServer_def)
  then have fresh: "counts_for W (fst (run U evs new_MCPServer)) = [1 ..< Suc (submissions W evs)]"
    using general [of new_MCPServer] by (simp add: map_Suc_upt del: upt_Suc)
  have handed: "cr_count c = count_of s (pd_workspace (cr_dialog c)) + 1
      \<and> dialogCounts (snd (step U e s)) (pd_workspace (cr_dialog c)) = Some (cr_count c)
      \<and> map_of (pendingDialogs (snd (step U e s))) (pd_id (cr_dialog c)) = Some (cr_dialog c)"
    if "created_of (fst (step U e s)) = Some c"
    using step_created(1,2,3) [OF that] by simp
  show ?thesis using general [of s] fresh handed by blast
qed

text \<open>
  Three submissions for \<open>/w\<close> with two for \<open>/other\<close> and a resolution in between, and
  the third dialog created on a server whose counter for \<open>/Proj\<close> stands at 1.
\<close>

theorem C4_sequence_counts_witness:
  "submissions ''/w'' ex_interleaved = 3
   \<and> counts_for ''/w'' (fst (run ex_lower ex_interleaved new_MCPServer)) = [1, 2, 3]
   \<and> created_of (fst (step ex_lower ex_third ex_case_pending)) =
       Some \<lparr>cr_dialog = ex_d3, cr_history = [], cr_count = 2, cr_notified = False\<rparr>
   \<and> dialogCounts (snd (step ex_lower ex_third ex_case_pending)) ''/Proj'' = Some 2
   \<and> map_of (pendingDialogs (snd (step ex_lower ex_third ex_case_pending))) ''dialog_3'' = Some ex_d3"
proof -
  have n: "submissions ''/w'' ex_interleaved = 3"
    by (simp add: submissions_def ex_interleaved_def tool_call_def or_empty_def)
  have created: "created_of (fst (step ex_lower ex_third ex_case_pending)) =
       Some \<lparr>cr_dialog = ex_d3, cr_history = [], cr_count = 2, cr_notified = False\<rparr>"
    by (simp add: ex_third_eval)
  note inst = C4_sequence_counts [where U = ex_lower and W = "''/w''" and evs = ex_interleaved
      and s = ex_case_pending and e = ex_third
      and c = "\<lparr>cr_dialog = ex_d3, cr_history = [], cr_count = 2, cr_notified = False\<rparr>"]
  have "counts_for ''/w'' (fst (run ex_lower ex_interleaved new_MCPServer)) = [1 ..< Suc 3]"
    using inst unfolding n by blast
  moreover have "[1 ..< Suc 3] = [1, 2, 3::nat]"
    by (simp add: upt_conv_Cons)
  moreover have "dialogCounts (snd (step ex_lower ex_third ex_case_pending)) ''/Proj'' = Some 2
     \<and> map_of (pendingDialogs (snd (step ex_lower ex_third ex_case_pending))) ''dialog_3'' = Some ex_d3"
    using inst created by (simp add: ex_d3_def)
  ultimately show ?thesis using n created by simp
qed

section \<open>Which pending dialogs a workspace is offered\<close>

text \<open>
  Claim C5. The workspace filter of the pending list is containment routing. For a
  filter path \<open>w\<close> that is supplied (non-empty), the answer is the list of all pending
  dialogs, in order, restricted to those that match: a dialog with workspace \<open>d\<close> is in
  the answer if and only if it is pending and, with both paths lower-cased and then every
  backslash (byte \<open>0x5C\<close>) replaced by a forward slash, \<open>d\<close> equals \<open>w\<close>, or \<open>d\<close> is \<open>w\<close>
  followed by \<open>/\<close> and more, or \<open>w\<close> is \<open>d\<close> followed by \<open>/\<close> and more. This holds for all
  paths and whatever the runtime's case tables \<open>U\<close> do to paths outside ASCII; on ASCII
  paths lower-casing turns \<open>A\<close> to \<open>Z\<close> into \<open>a\<close> to \<open>z\<close> and nothing else. With no
  filter path (the parameter absent, or present and empty, which the truthiness test
  treats alike) every pending dialog is returned, as it is for the bare URL. So a dialog
  for \<open>C:\Proj\Sub\<close> is offered to the filter \<open>c:/proj\<close>, one for \<open>c:/proj/sub\<close> to
  \<open>C:\Proj\<close>, and one for \<open>C:\Project\<close> is not offered to \<open>c:/proj\<close>. The same
  comparison guards \<^verbatim>\<open>handleDialogRequest\<close>: a request for \<open>/a/b\<close> is claimed with \<open>/a\<close>
  open, one for \<open>/a\<close> with \<open>/a/b\<close> open and one for \<open>/a\<close> with no folder open, while one
  for \<open>/x\<close> with \<open>/a\<close> open is not.
\<close>

theorem C5_containment_routing:
  "(w \<noteq> [] \<longrightarrow>
      get_pending U (Some w) s =
        filter (\<lambda>info. workspace_matches U (pi_workspace info) w) (get_pending U None s)
    \<and> (info \<in> set (get_pending U (Some w) s) \<longleftrightarrow>
         info \<in> set (get_pending U None s)
         \<and> (let d' = map (\<lambda>c. if c = CHR 0x5C then CHR ''/'' else c)
                         (toLowerCase U (pi_workspace info));
                 w' = map (\<lambda>c. if c = CHR 0x5C then CHR ''/'' else c) (toLowerCase U w)
            in d' = w' \<or> (\<exists>rest. d' = w' @ ''/'' @ rest) \<or> (\<exists>rest. w' = d' @ ''/'' @ rest))))
   \<and> get_pending U None s =
       map (\<lambda>(k, p). \<lparr>pi_id = pd_id p, pi_reason = pd_reason p, pi_workspace = pd_workspace p\<rparr>)
           (pendingDialogs s)
   \<and> get_pending U (Some []) s = get_pending U None s
   \<and> map (\<lambda>i. (pi_reason i, pi_workspace i)) (get_pending_bare s) =
       map (\<lambda>i. (pi_reason i, pi_workspace i)) (get_pending U None s)
   \<and> toLowerCase U ''/ABCDEFGHIJKLMNOPQRSTUVWXYZ az_09.'' = ''/abcdefghijklmnopqrstuvwxyz az_09.''
   \<and> workspace_matches U (''C:'' @ [CHR 0x5C] @ ''Proj'' @ [CHR 0x5C] @ ''Sub'') ''c:/proj''
   \<and> workspace_matches U ''c:/proj/sub'' (''C:'' @ [CHR 0x5C] @ ''Proj'')
   \<and> \<not> workspace_matches U (''C:'' @ [CHR 0x5C] @ ''Project'') ''c:/proj''
   \<and> shouldClaim U ''/a/b'' (Some [''/a''])
   \<and> shouldClaim U ''/a'' (Some [''/a/b''])
   \<and> shouldClaim U ''/a'' (Some [])
   \<and> \<not> shouldClaim U ''/x'' (Some [''/a''])
   \<and> shouldClaim U (''C:'' @ [CHR 0x5C] @ ''Proj'' @ [CHR 0x5C] @ ''Sub'') (Some [''/x'', ''c:/proj''])"
proof -
  have bare: "map (\<lambda>i. (pi_reason i, pi_workspace i)) (get_pending_bare s) =
       map (\<lambda>i. (pi_reason i, pi_workspace i)) (get_pending U None s)"
    by (simp add: get_pending_bare_def get_pending_def case_prod_unfold)
  have "info \<in> set (get_pending U (Some w) s) \<longleftrightarrow>
         info \<in> set (get_pending U None s)
         \<and> (let d' = map (\<lambda>c. if c = CHR 0x5C then CHR ''/'' else c)
                         (toLowerCase U (pi_workspace info));
                 w' = map (\<lambda>c. if c = CHR 0x5C then CHR ''/'' else c) (toLowerCase U w)
            in d' = w' \<or> (\<exists>rest. d' = w' @ ''/'' @ rest) \<or> (\<exists>rest. w' = d' @ ''/'' @ rest))"
    if "w \<noteq> []"
    by (simp only: get_pending_Some [OF that] set_filter mem_Collect_eq workspace_matches_iff)
  then show ?thesis
    using get_pending_Some [of w U s] get_pending_None [of U s] get_pending_empty [of U s]
      shouldClaim_examples [of U] workspace_matches_backslash [of U] toLowerCase_letters [of U]
      bare
    by blast
qed

text \<open>
  Five pending dialogs, for \<open>/a/b\<close>, \<open>/x\<close>, \<open>/A\<close>, \<open>C:\Proj\Sub\<close> and the upper-case
  non-ASCII path, listed for the filters \<open>/a\<close>, \<open>c:/proj\<close> and the lower-case non-ASCII
  path.
\<close>

theorem C5_containment_routing_witness:
  "''/a'' \<noteq> [] \<and> ''c:/proj'' \<noteq> [] \<and> ex_ecole_lower \<noteq> []
   \<and> get_pending ex_lower (Some ''/a'') ex_routing =
       [\<lparr>pi_id = ''dialog_1'', pi_reason = ''r1'', pi_workspace = ''/a/b''\<rparr>,
        \<lparr>pi_id = ''dialog_3'', pi_reason = ''r3'', pi_workspace = ''/A''\<rparr>]
   \<and> get_pending ex_lower (Some ''c:/proj'') ex_routing =
       [\<lparr>pi_id = ''dialog_4'', pi_reason = ''r4'', pi_workspace = ex_win_path\<rparr>]
   \<and> get_pending ex_lower (Some ex_ecole_lower) ex_routing =
       [\<lparr>pi_id = ''dialog_5'', pi_reason = ''r5'', pi_workspace = ex_ecole_upper\<rparr>]
   \<and> \<lparr>pi_id = ''dialog_2'', pi_reason = ''r2'', pi_workspace = ''/x''\<rparr>
         \<notin> set (get_pending ex_lower (Some ''/a'') ex_routing)
   \<and> length (get_pending ex_lower (Some []) ex_routing) = 5"
proof -
  have ne: "''/a'' \<noteq> []" "''c:/proj'' \<noteq> []" "ex_ecole_lower \<noteq> []"
    by (simp_all add: ex_ecole_lower_def)
  note a = C5_containment_routing [where U = ex_lower and w = "''/a''" and s = ex_routing]
  note b = C5_containment_routing [where U = ex_lower and w = "''c:/proj''" and s = ex_routing]
  note c = C5_containment_routing [where U = ex_lower and w = ex_ecole_lower and s = ex_routing]
  have "get_pending ex_lower (Some ''/a'') ex_routing =
        filter (\<lambda>info. workspace_matches ex_lower (pi_workspace info) ''/a'')
          (get_pending ex_lower None ex_routing)"
    using a ne by blast
  then have listed_a: "get_pending ex_lower (Some ''/a'') ex_routing =
       [\<lparr>pi_id = ''dialog_1'', pi_reason = ''r1'', pi_workspace = ''/a/b''\<rparr>,
        \<lparr>pi_id = ''dialog_3'', pi_reason = ''r3'', pi_workspace = ''/A''\<rparr>]"
    by (simp add: ex_routing_pending workspace_matches_def path_defs ex_win_path_def
        ex_ecole_upper_def ex_lower_def)
  have "get_pending ex_lower (Some ''c:/proj'') ex_routing =
        filter (\<lambda>info. workspace_matches ex_lower (pi_workspace info) ''c:/proj'')
          (get_pending ex_lower None ex_routing)"
    using b ne by blast
  then have listed_b: "get_pending ex_lower (Some ''c:/proj'') ex_routing =
       [\<lparr>pi_id = ''dialog_4'', pi_reason = ''r4'', pi_workspace = ex_win_path\<rparr>]"
    by (simp add: ex_routing_pending workspace_matches_def path_defs ex_win_path_def
        ex_ecole_upper_def ex_lower_def)
  have "get_pending ex_lower (Some ex_ecole_lower) ex_routing =
        filter (\<lambda>info. workspace_matches ex_lower (pi_workspace info) ex_ecole_lower)
          (get_pending ex_lower None ex_routing)"
    using c ne by blast
  then have listed_c: "get_pending ex_lower (Some ex_ecole_lower) ex_routing =
       [\<lparr>pi_id = ''dialog_5'', pi_reason = ''r5'', pi_workspace = ex_ecole_upper\<rparr>]"
    by (simp add: ex_routing_pending workspace_matches_def path_defs ex_win_path_def
        ex_ecole_upper_def ex_ecole_lower_def ex_lower_def)
  have "get_pending ex_lower (Some []) ex_routing = get_pending ex_lower None ex_routing"
    using a by blast
  then have everything: "length (get_pending ex_lower (Some []) ex_routing) = 5"
    by (simp add: ex_routing_pending)
  show ?thesis using ne listed_a listed_b listed_c everything by simp
qed

section \<open>The text returned by the tool\<close>

text \<open>
  Claim C6. Both servers answer a call of the published tool with the response object
  \<^verbatim>\<open>{ jsonrpc, id, result: { content: [{ type: 'text', text }] } }\<close>, whose \<open>text\<close> is
  computed from the resolution alone. When the resolution has \<open>shouldContinue = false\<close>
  the text is the fixed stop directive, whatever \<open>userInput\<close> and \<open>attachments\<close> are. When
  it has \<open>shouldContinue = true\<close> the text contains \<open>userInput\<close> verbatim and, for every
  attachment of type file or code, the whole content of that attachment. For every
  \<open>tools/call\<close> request that names the published tool: the SSE server posts the dialog to
  the extension, and the extension's handler suspends on a new dialog; resolving that
  dialog with \<open>r\<close> succeeds and wakes the suspended call, which returns this response,
  under the id of the request, with the text of \<open>r\<close>.
\<close>

theorem C6_tool_result_text:
  "tools_call_reply rid r =
     RpcResult rid (JObj [(''content'',
                           JArr [JObj [(''type'', JStr ''text''), (''text'', JStr (resultText r))]])])
   \<and> sse_tools_call_reply rid (Inr r) =
     RpcResult rid (JObj [(''content'',
                           JArr [JObj [(''type'', JStr ''text''), (''text'', JStr (sse_resultText r))]])])
   \<and> (\<not> shouldContinue r \<longrightarrow>
        resultText r = txt_stop \<and> sse_resultText r = txt_stop
      \<and> tools_call_reply rid r =
          RpcResult rid (JObj [(''content'',
                                JArr [JObj [(''type'', JStr ''text''), (''text'', JStr txt_stop)]])])
      \<and> sse_tools_call_reply rid (Inr r) =
          RpcResult rid (JObj [(''content'',
                                JArr [JObj [(''type'', JStr ''text''), (''text'', JStr txt_stop)]])]))
   \<and> (shouldContinue r \<longrightarrow>
        (\<exists>pre post. resultText r = pre @ userInput r @ post)
      \<and> (\<exists>pre post. sse_resultText r = pre @ userInput r @ post)
      \<and> (attachments r = Some atts \<and> a \<in> set atts \<and> att_type a \<in> {File, Code} \<longrightarrow>
           (\<exists>pre post. resultText r = pre @ att_content a @ post)
         \<and> (\<exists>pre post. sse_resultText r = pre @ att_content a @ post)))
   \<and> (rq_method rq = Some ''tools/call'' \<and> rq_name rq = Some ''AI_chat_HITL'' \<longrightarrow>
        sse_handleMCPRequest rq = SsePosted (or_empty (rq_reason rq)) (or_empty (rq_workspace rq))
      \<and> (\<exists>c s1 s2.
            handleMCPRequest rq stamp s = (Suspended c, s1)
          \<and> respondToDialog (''dialog_'' @ stamp) (shouldContinue r) (userInput r) (attachments r)
                now s1 = (True, Some (ToolsCall (rq_id rq), r), s2)
          \<and> wake (ToolsCall (rq_id rq), r) =
              ToolResponse
                (RpcResult (rq_id rq)
                   (JObj [(''content'',
                           JArr [JObj [(''type'', JStr ''text''),
                                       (''text'', JStr (resultText r))]])]))))"
proof -
  have replies: "tools_call_reply rid r =
     RpcResult rid (JObj [(''content'',
                           JArr [JObj [(''type'', JStr ''text''), (''text'', JStr (resultText r))]])])"
    "sse_tools_call_reply rid (Inr r) =
     RpcResult rid (JObj [(''content'',
                           JArr [JObj [(''type'', JStr ''text''), (''text'', JStr (sse_resultText r))]])])"
    for rid
    by (simp_all add: tools_call_reply_def sse_tools_call_reply_def text_content_def)
  have stop: "resultText r = txt_stop \<and> sse_resultText r = txt_stop" if "\<not> shouldContinue r"
    using that by (simp add: resultText_def sse_resultText_def)
  have stop_reply: "tools_call_reply rid r =
          RpcResult rid (JObj [(''content'',
                                JArr [JObj [(''type'', JStr ''text''), (''text'', JStr txt_stop)]])])
      \<and> sse_tools_call_reply rid (Inr r) =
          RpcResult rid (JObj [(''content'',
                                JArr [JObj [(''type'', JStr ''text''), (''text'', JStr txt_stop)]])])"
    if "\<not> shouldContinue r"
    using stop [OF that] by (simp add: replies)
  have input: "(\<exists>pre post. resultText r = pre @ userInput r @ post)
      \<and> (\<exists>pre post. sse_resultText r = pre @ userInput r @ post)" if "shouldContinue r"
    unfolding resultText_continue [OF that] sse_resultText_continue [OF that] by blast
  have content: "(\<exists>pre post. resultText r = pre @ att_content a @ post)
         \<and> (\<exists>pre post. sse_resultText r = pre @ att_content a @ post)"
    if "shouldContinue r" and "attachments r = Some atts" and "a \<in> set atts"
      and "att_type a \<in> {File, Code}"
  proof -
    have "att_type a \<noteq> Image" using that(4) by auto
    then show ?thesis
      unfolding resultText_continue [OF that(1)] sse_resultText_continue [OF that(1)]
      using continue_text_contains [OF that(2,3)] render_attachment_content
        sse_render_attachment_content
      by blast
  qed
  have woken: "wake (ToolsCall (rq_id rq), r) =
              ToolResponse
                (RpcResult (rq_id rq)
                   (JObj [(''content'',
                           JArr [JObj [(''type'', JStr ''text''),
                                       (''text'', JStr (resultText r))]])]))"
    by (simp add: wake_def replies)
  have posted: "sse_handleMCPRequest rq =
                  SsePosted (or_empty (rq_reason rq)) (or_empty (rq_workspace rq))"
    if "rq_method rq = Some ''tools/call''" and "rq_name rq = Some ''AI_chat_HITL''"
    using that by (simp add: sse_handleMCPRequest_def)
  have e2e: "\<exists>c s1 s2.
            handleMCPRequest rq stamp s = (Suspended c, s1)
          \<and> respondToDialog (''dialog_'' @ stamp) (shouldContinue r) (userInput r) (attachments r)
                now s1 = (True, Some (ToolsCall (rq_id rq), r), s2)
          \<and> wake (ToolsCall (rq_id rq), r) =
              ToolResponse
                (RpcResult (rq_id rq)
                   (JObj [(''content'',
                           JArr [JObj [(''type'', JStr ''text''),
                                       (''text'', JStr (resultText r))]])]))"
    if "rq_method rq = Some ''tools/call''" and "rq_name rq = Some ''AI_chat_HITL''"
    using tools_call_end_to_end [OF that, of stamp s r now] woken by blast
  show ?thesis
    using replies [of rid] stop stop_reply input content posted e2e by blast
qed

text \<open>
  A stop with input and an attachment supplied, and a continue with the input
  \<open>keep going\<close> and the code attachment \<open>x.py\<close>, the latter also from the tool call to
  the woken response.
\<close>

theorem C6_tool_result_text_witness:
  "tools_call_reply (Some (JNum 7)) ex_stop =
     RpcResult (Some (JNum 7))
       (JObj [(''content'', JArr [JObj [(''type'', JStr ''text''), (''text'', JStr txt_stop)]])])
   \<and> sse_tools_call_reply (Some (JNum 7)) (Inr ex_stop) =
     RpcResult (Some (JNum 7))
       (JObj [(''content'', JArr [JObj [(''type'', JStr ''text''), (''text'', JStr txt_stop)]])])
   \<and> length txt_stop = 90
   \<and> (\<exists>pre post. resultText ex_continue = pre @ ''keep going'' @ post)
   \<and> (\<exists>pre post. sse_resultText ex_continue = pre @ ''keep going'' @ post)
   \<and> (\<exists>pre post. resultText ex_continue = pre @ ''print(1)'' @ post)
   \<and> (\<exists>pre post. sse_resultText ex_continue = pre @ ''print(1)'' @ post)
   \<and> tools_call_reply (Some (JNum 7)) ex_continue =
     RpcResult (Some (JNum 7))
       (JObj [(''content'',
               JArr [JObj [(''type'', JStr ''text''),
                           (''text'', JStr (txt_continue_pre @ ''keep going'' @ txt_continue_post
                                            @ txt_attachments @ txt_code @ ''x.py'' @ txt_fence
                                            @ ''print(1)'' @ txt_fence))]])])
   \<and> map_option wake
         (fst (snd (respondToDialog ''dialog_1'' True ''keep going'' (Some [ex_code_attachment]) 5
                      (snd (handleMCPRequest (tool_call 7 ''done'' ''/proj'') ''1'' new_MCPServer))))) =
       Some (ToolResponse
              (RpcResult (Some (JNum 7))
                 (JObj [(''content'',
                         JArr [JObj [(''type'', JStr ''text''),
                                     (''text'', JStr (resultText ex_continue))]])])))"
proof -
  have stop: "\<not> shouldContinue ex_stop" by (simp add: ex_stop_def)
  have cont: "shouldContinue ex_continue" by (simp add: ex_continue_def)
  have att: "attachments ex_continue = Some [ex_code_attachment]
             \<and> ex_code_attachment \<in> set [ex_code_attachment]
             \<and> att_type ex_code_attachment \<in> {File, Code}"
    by (simp add: ex_continue_def ex_code_attachment_def)
  have call: "rq_method (tool_call 7 ''done'' ''/proj'') = Some ''tools/call''
              \<and> rq_name (tool_call 7 ''done'' ''/proj'') = Some ''AI_chat_HITL''"
    by (simp add: tool_call_def)
  have fields: "userInput ex_continue = ''keep going''" "att_content ex_code_attachment = ''print(1)''"
    "shouldContinue ex_continue = True" "attachments ex_continue = Some [ex_code_attachment]"
    "rq_id (tool_call 7 ''done'' ''/proj'') = Some (JNum 7)"
    by (simp_all add: ex_continue_def ex_code_attachment_def tool_call_def)
  note stopped = C6_tool_result_text [where r = ex_stop and rid = "Some (JNum 7)"]
  note continued = C6_tool_result_text [where r = ex_continue and atts = "[ex_code_attachment]"
      and a = ex_code_attachment and rid = "Some (JNum 7)"
      and rq = "tool_call 7 ''done'' ''/proj''" and stamp = "''1''" and s = new_MCPServer
      and now = 5]
  have len: "length txt_stop = 90" by (simp add: txt_stop_def)
  have full: "resultText ex_continue =
       txt_continue_pre @ ''keep going'' @ txt_continue_post @ txt_attachments
         @ txt_code @ ''x.py'' @ txt_fence @ ''print(1)'' @ txt_fence"
    by (simp add: resultText_def render_attachment_def ex_continue_def ex_code_attachment_def)
  have stop_replies: "tools_call_reply (Some (JNum 7)) ex_stop =
     RpcResult (Some (JNum 7))
       (JObj [(''content'', JArr [JObj [(''type'', JStr ''text''), (''text'', JStr txt_stop)]])])"
    "sse_tools_call_reply (Some (JNum 7)) (Inr ex_stop) =
     RpcResult (Some (JNum 7))
       (JObj [(''content'', JArr [JObj [(''type'', JStr ''text''), (''text'', JStr txt_stop)]])])"
    using stopped stop by blast+
  have contains: "(\<exists>pre post. resultText ex_continue = pre @ ''keep going'' @ post)"
    "(\<exists>pre post. sse_resultText ex_continue = pre @ ''keep going'' @ post)"
    "(\<exists>pre post. resultText ex_continue = pre @ ''print(1)'' @ post)"
    "(\<exists>pre post. sse_resultText ex_continue = pre @ ''print(1)'' @ post)"
    using continued [unfolded fields] cont att by blast+
  have reply: "tools_call_reply (Some (JNum 7)) ex_continue =
     RpcResult (Some (JNum 7))
       (JObj [(''content'',
               JArr [JObj [(''type'', JStr ''text''), (''text'', JStr (resultText ex_continue))]])])"
    using continued by blast
  obtain c s1 s2 where run:
    "handleMCPRequest (tool_call 7 ''done'' ''/proj'') ''1'' new_MCPServer = (Suspended c, s1)"
    "respondToDialog (''dialog_'' @ ''1'') True ''keep going'' (Some [ex_code_attachment]) 5 s1 =
       (True, Some (ToolsCall (Some (JNum 7)), ex_continue), s2)"
    "wake (ToolsCall (Some (JNum 7)), ex_continue) =
       ToolResponse
         (RpcResult (Some (JNum 7))
            (JObj [(''content'',
                    JArr [JObj [(''type'', JStr ''text''),
                                (''text'', JStr (resultText ex_continue))]])]))"
    using continued [unfolded fields] call by blast
  have woken: "map_option wake
         (fst (snd (respondToDialog ''dialog_1'' True ''keep going'' (Some [ex_code_attachment]) 5
                      (snd (handleMCPRequest (tool_call 7 ''done'' ''/proj'') ''1'' new_MCPServer))))) =
       Some (ToolResponse
              (RpcResult (Some (JNum 7))
                 (JObj [(''content'',
                         JArr [JObj [(''type'', JStr ''text''),
                                     (''text'', JStr (resultText ex_continue))]])])))"
    using run by simp
  show ?thesis
    using stop_replies len contains reply [unfolded full] woken by blast
qed

section \<open>Unknown methods and unknown tools\<close>

text \<open>
  Claim C7. For a message whose method is none of \<open>initialize\<close>, \<open>initialized\<close>,
  \<open>tools/list\<close>, \<open>tools/call\<close>: if it carries an id (\<^verbatim>\<open>request.id !== undefined\<close>) both
  handlers return an error response with code \<open>-32601\<close> under that id; if it carries none
  they return no response. A \<open>tools/call\<close> that names anything but the published tool gets
  an error response with code \<open>-32601\<close>; the state of the dialog server is returned
  unchanged, so no pending dialog is created, and the SSE server posts nothing.
\<close>

theorem C7_unknown_method_or_tool:
  "(rq_method rq \<notin> {Some ''initialize'', Some ''initialized'', Some ''tools/list'', Some ''tools/call''} \<longrightarrow>
      (rq_id rq \<noteq> None \<longrightarrow>
         handleMCPRequest rq d s =
           (Replied (Some (RpcError (rq_id rq) (- 32601)
                             (''Method not found: '' @ interpolate (rq_method rq)))), s)
       \<and> sse_handleMCPRequest rq =
           SseReplied (Some (RpcError (rq_id rq) (- 32601)
                               (''Method not found: '' @ interpolate (rq_method rq)))))
    \<and> (rq_id rq = None \<longrightarrow>
         handleMCPRequest rq d s = (Replied None, s)
       \<and> sse_handleMCPRequest rq = SseReplied None))
   \<and> (rq_method rq = Some ''tools/call'' \<and> rq_name rq \<noteq> Some ''AI_chat_HITL'' \<longrightarrow>
        handleMCPRequest rq d s =
          (Replied (Some (RpcError (rq_id rq) (- 32601)
                            (''Unknown tool: '' @ interpolate (rq_name rq)))), s)
      \<and> sse_handleMCPRequest rq =
          SseReplied (Some (RpcError (rq_id rq) (- 32601)
                              (''Unknown tool: '' @ interpolate (rq_name rq)))))"
  by (simp add: handleMCPRequest_def sse_handleMCPRequest_def)

text \<open>Requests with a numeric id, with the id \<open>null\<close>, with no id, and for an unknown tool.\<close>

theorem C7_unknown_method_or_tool_witness:
  "handleMCPRequest (ex_request (Some (JNum 4)) ''resources/list'' None) ''9'' new_MCPServer =
     (Replied (Some (RpcError (Some (JNum 4)) (- 32601) ''Method not found: resources/list'')),
      new_MCPServer)
   \<and> sse_handleMCPRequest (ex_request (Some JNull) ''ping'' None) =
       SseReplied (Some (RpcError (Some JNull) (- 32601) ''Method not found: ping''))
   \<and> handleMCPRequest (ex_request None ''notifications/cancelled'' None) ''9'' new_MCPServer =
       (Replied None, new_MCPServer)
   \<and> sse_handleMCPRequest (ex_request None ''notifications/cancelled'' None) = SseReplied None
   \<and> handleMCPRequest (ex_request (Some (JNum 5)) ''tools/call'' (Some ''other_tool'')) ''9'' new_MCPServer =
       (Replied (Some (RpcError (Some (JNum 5)) (- 32601) ''Unknown tool: other_tool'')),
        new_MCPServer)
   \<and> sse_handleMCPRequest (ex_request (Some (JNum 5)) ''tools/call'' None) =
       SseReplied (Some (RpcError (Some (JNum 5)) (- 32601) ''Unknown tool: undefined''))
   \<and> pendingDialogs (snd (handleMCPRequest
         (ex_request (Some (JNum 5)) ''tools/call'' (Some ''other_tool'')) ''9'' new_MCPServer)) = []"
  using
    C7_unknown_method_or_tool [where rq = "ex_request (Some (JNum 4)) ''resources/list'' None"
      and d = "''9''" and s = new_MCPServer]
    C7_unknown_method_or_tool [where rq = "ex_request (Some JNull) ''ping'' None"
      and d = "''9''" and s = new_MCPServer]
    C7_unknown_method_or_tool [where rq = "ex_request None ''notifications/cancelled'' None"
      and d = "''9''" and s = new_MCPServer]
    C7_unknown_method_or_tool [where rq = "ex_request (Some (JNum 5)) ''tools/call'' (Some ''other_tool'')"
      and d = "''9''" and s = new_MCPServer]
    C7_unknown_method_or_tool [where rq = "ex_request (Some (JNum 5)) ''tools/call'' None"
      and d = "''9''" and s = new_MCPServer]
  by (simp add: ex_request_def interpolate_def new_MCPServer_def)

section \<open>Initialize\<close>

text \<open>
  Claim C8. \<open>initialize\<close> is idempotent and deterministic. Whatever requests a server has
  handled (\<open>evs\<close>), an \<open>initialize\<close> request succeeds, leaves the state as it was and
  returns a result that depends on nothing but the version the server was configured
  with; a second \<open>initialize\<close>, after the first one and any further requests (\<open>evs'\<close>),
  returns the same result, the two responses differing only in the id they echo. The
  version is set once, by \<^verbatim>\<open>setVersion\<close> when the extension activates, before the server
  listens; no request handler assigns it. The standalone SSE server returns a constant.
\<close>

theorem C8_initialize_idempotent:
  assumes "rq_method rq = Some ''initialize''" and "rq_method rq' = Some ''initialize''"
  shows
  "step U (McpRequest rq d) (snd (run U evs s)) =
     (McpOut (Replied (Some (RpcResult (rq_id rq) (initialize_result (version s))))),
      snd (run U evs s))
   \<and> step U (McpRequest rq' d') (snd (run U (evs @ McpRequest rq d # evs') s)) =
     (McpOut (Replied (Some (RpcResult (rq_id rq') (initialize_result (version s))))),
      snd (run U (evs @ McpRequest rq d # evs') s))
   \<and> sse_handleMCPRequest rq = SseReplied (Some (RpcResult (rq_id rq) (initialize_result ''1.4.0'')))
   \<and> sse_handleMCPRequest rq' = SseReplied (Some (RpcResult (rq_id rq') (initialize_result ''1.4.0'')))"
  using assms by (simp add: handleMCPRequest_def sse_handleMCPRequest_def run_version)

text \<open>Two \<open>initialize\<close> requests on a new server, with six other requests between them.\<close>

theorem C8_initialize_idempotent_witness:
  "rq_method (ex_initialize (Some (JNum 1))) = Some ''initialize''
   \<and> fst (step ex_lower (McpRequest (ex_initialize (Some (JNum 1))) ''x'') (snd (run ex_lower [] new_MCPServer))) =
       McpOut (Replied (Some (RpcResult (Some (JNum 1)) (initialize_result ''1.5.0''))))
   \<and> fst (step ex_lower (McpRequest (ex_initialize (Some (JStr ''b''))) ''y'')
            (snd (run ex_lower ([] @ McpRequest (ex_initialize (Some (JNum 1))) ''x'' # ex_interleaved)
                   new_MCPServer))) =
       McpOut (Replied (Some (RpcResult (Some (JStr ''b'')) (initialize_result ''1.5.0''))))"
proof -
  have m: "rq_method (ex_initialize (Some (JNum 1))) = Some ''initialize''"
    "rq_method (ex_initialize (Some (JStr ''b''))) = Some ''initialize''"
    by (simp_all add: ex_initialize_def)
  have id: "rq_id (ex_initialize (Some (JNum 1))) = Some (JNum 1)"
    "rq_id (ex_initialize (Some (JStr ''b''))) = Some (JStr ''b'')"
    by (simp_all add: ex_initialize_def)
  have v: "version new_MCPServer = ''1.5.0''" by (simp add: new_MCPServer_def)
  note inst = C8_initialize_idempotent [OF m, where U = ex_lower and d = "''x''" and d' = "''y''" and evs = "[]"
      and evs' = ex_interleaved and s = new_MCPServer, unfolded id v]
  have first: "fst (step ex_lower (McpRequest (ex_initialize (Some (JNum 1))) ''x'') (snd (run ex_lower [] new_MCPServer))) =
       McpOut (Replied (Some (RpcResult (Some (JNum 1)) (initialize_result ''1.5.0''))))"
    by (simp only: inst [THEN conjunct1] fst_conv)
  have second: "fst (step ex_lower (McpRequest (ex_initialize (Some (JStr ''b''))) ''y'')
            (snd (run ex_lower ([] @ McpRequest (ex_initialize (Some (JNum 1))) ''x'' # ex_interleaved)
                   new_MCPServer))) =
       McpOut (Replied (Some (RpcResult (Some (JStr ''b'')) (initialize_result ''1.5.0''))))"
    by (simp only: inst [THEN conjunct2, THEN conjunct1] fst_conv)
  show ?thesis using m(1) first second by blast
qed

section \<open>The id field of a response body\<close>

text \<open>
  Claim C9. \<^verbatim>\<open>POST /respond\<close> takes the dialog id from \<open>id\<close> or from \<open>dialogId\<close>: the key
  looked up is the value of \<open>id\<close> when that value is truthy and the value of \<open>dialogId\<close>
  otherwise. When the key is a string the endpoint does to that dialog what
  \<^verbatim>\<open>respondToDialog\<close> does; when it is not a string nothing is found. Hence a body that
  supplies a value only under \<open>dialogId\<close> is answered exactly like one that supplies it only
  under \<open>id\<close>: in every state without a dialog under the empty id, and so in every state
  a server reaches, since generated ids start with \<open>dialog_\<close>.
\<close>

theorem C9_respond_id_or_dialogId:
  "js_or (rb_id b) (rb_dialogId b) = (if truthy (rb_id b) then rb_id b else rb_dialogId b)
   \<and> ((if truthy (rb_id b) then rb_id b else rb_dialogId b) = Some (JStr k) \<longrightarrow>
        post_respond (Some b) now s =
          (case respondToDialog k (rb_shouldContinue b) (rb_userInput b) (rb_attachments b) now s of
             (ok, u, s') \<Rightarrow> (if ok then RespondSuccess else RespondNotFound, u, s')))
   \<and> ((\<forall>k. (if truthy (rb_id b) then rb_id b else rb_dialogId b) \<noteq> Some (JStr k)) \<longrightarrow>
        post_respond (Some b) now s = (RespondNotFound, None, s))
   \<and> (v \<noteq> JStr [] \<or> map_of (pendingDialogs s) [] = None \<longrightarrow>
        post_respond (Some \<lparr>rb_id = None, rb_dialogId = Some v, rb_shouldContinue = sc,
                             rb_userInput = ui, rb_attachments = atts\<rparr>) now s =
        post_respond (Some \<lparr>rb_id = Some v, rb_dialogId = None, rb_shouldContinue = sc,
                             rb_userInput = ui, rb_attachments = atts\<rparr>) now s)
   \<and> post_respond (Some \<lparr>rb_id = None, rb_dialogId = Some v, rb_shouldContinue = sc,
                          rb_userInput = ui, rb_attachments = atts\<rparr>) now (snd (run U evs new_MCPServer)) =
     post_respond (Some \<lparr>rb_id = Some v, rb_dialogId = None, rb_shouldContinue = sc,
                          rb_userInput = ui, rb_attachments = atts\<rparr>) now (snd (run U evs new_MCPServer))"
proof -
  have key: "js_or (rb_id b) (rb_dialogId b) = (if truthy (rb_id b) then rb_id b else rb_dialogId b)"
    by (simp add: js_or_def)
  have found: "post_respond (Some b) now s =
          (case respondToDialog k (rb_shouldContinue b) (rb_userInput b) (rb_attachments b) now s of
             (ok, u, s') \<Rightarrow> (if ok then RespondSuccess else RespondNotFound, u, s'))"
    if "(if truthy (rb_id b) then rb_id b else rb_dialogId b) = Some (JStr k)"
    using that by (intro post_respond_as_respondToDialog) (simp add: js_or_def)
  have not_string: "post_respond (Some b) now s = (RespondNotFound, None, s)"
    if "\<forall>k. (if truthy (rb_id b) then rb_id b else rb_dialogId b) \<noteq> Some (JStr k)"
    using that by (intro post_respond_not_string) (simp add: js_or_def)
  have same: "post_respond (Some \<lparr>rb_id = None, rb_dialogId = Some v, rb_shouldContinue = sc,
                             rb_userInput = ui, rb_attachments = atts\<rparr>) now s =
        post_respond (Some \<lparr>rb_id = Some v, rb_dialogId = None, rb_shouldContinue = sc,
                             rb_userInput = ui, rb_attachments = atts\<rparr>) now s"
    if "v \<noteq> JStr [] \<or> map_of (pendingDialogs s) [] = None" for s
    using that
    by (cases v)
       (auto simp: post_respond_def js_or_def pendingDialogs_get_def pendingDialogs_delete_def Let_def
          split: option.splits)
  have "map_of (pendingDialogs (snd (run U evs new_MCPServer))) [] = None"
    by (rule run_absent) (simp_all add: new_MCPServer_def no_empty_id)
  then have reached:
    "post_respond (Some \<lparr>rb_id = None, rb_dialogId = Some v, rb_shouldContinue = sc,
                          rb_userInput = ui, rb_attachments = atts\<rparr>) now (snd (run U evs new_MCPServer)) =
     post_respond (Some \<lparr>rb_id = Some v, rb_dialogId = None, rb_shouldContinue = sc,
                          rb_userInput = ui, rb_attachments = atts\<rparr>) now (snd (run U evs new_MCPServer))"
    by (intro same) simp
  show ?thesis using key found not_string same [of s] reached by blast
qed

text \<open>
  On a server with \<open>dialog_1\<close> pending: the id under \<open>dialogId\<close> only and under \<open>id\<close>
  only; an empty \<open>id\<close> next to a \<open>dialogId\<close>; a truthy \<open>id\<close> that wins over \<open>dialogId\<close>;
  and numbers in both fields.
\<close>

theorem C9_respond_id_or_dialogId_witness:
  "post_respond (Some \<lparr>rb_id = None, rb_dialogId = Some (JStr ''dialog_1''), rb_shouldContinue = True,
                        rb_userInput = ''go'', rb_attachments = None\<rparr>) 5 ex_pending =
   post_respond (Some \<lparr>rb_id = Some (JStr ''dialog_1''), rb_dialogId = None, rb_shouldContinue = True,
                        rb_userInput = ''go'', rb_attachments = None\<rparr>) 5 ex_pending
   \<and> fst (post_respond (Some \<lparr>rb_id = None, rb_dialogId = Some (JStr ''dialog_1''), rb_shouldContinue = True,
                        rb_userInput = ''go'', rb_attachments = None\<rparr>) 5 ex_pending) = RespondSuccess
   \<and> post_respond (Some \<lparr>rb_id = Some (JStr []), rb_dialogId = Some (JStr ''dialog_1''),
                          rb_shouldContinue = True, rb_userInput = ''go'', rb_attachments = None\<rparr>)
        5 ex_pending =
       (case respondToDialog ''dialog_1'' True ''go'' None 5 ex_pending of
          (ok, u, s') \<Rightarrow> (if ok then RespondSuccess else RespondNotFound, u, s'))
   \<and> post_respond (Some \<lparr>rb_id = Some (JStr ''dialog_7''), rb_dialogId = Some (JStr ''dialog_1''),
                          rb_shouldContinue = True, rb_userInput = ''go'', rb_attachments = None\<rparr>)
        5 ex_pending =
       (case respondToDialog ''dialog_7'' True ''go'' None 5 ex_pending of
          (ok, u, s') \<Rightarrow> (if ok then RespondSuccess else RespondNotFound, u, s'))
   \<and> post_respond (Some \<lparr>rb_id = Some (JNum 0), rb_dialogId = Some (JNum 3),
                          rb_shouldContinue = True, rb_userInput = ''go'', rb_attachments = None\<rparr>)
        5 ex_pending = (RespondNotFound, None, ex_pending)"
proof -
  have same: "post_respond (Some \<lparr>rb_id = None, rb_dialogId = Some (JStr ''dialog_1''), rb_shouldContinue = True,
                        rb_userInput = ''go'', rb_attachments = None\<rparr>) 5 ex_pending =
   post_respond (Some \<lparr>rb_id = Some (JStr ''dialog_1''), rb_dialogId = None, rb_shouldContinue = True,
                        rb_userInput = ''go'', rb_attachments = None\<rparr>) 5 ex_pending"
    using C9_respond_id_or_dialogId [where U = ex_lower and v = "JStr ''dialog_1''" and s = ex_pending and sc = True
        and ui = "''go''" and atts = None and now = 5]
    by simp
  have by_dialogId: "post_respond (Some \<lparr>rb_id = Some (JStr []), rb_dialogId = Some (JStr ''dialog_1''),
                          rb_shouldContinue = True, rb_userInput = ''go'', rb_attachments = None\<rparr>)
        5 ex_pending =
       (case respondToDialog ''dialog_1'' True ''go'' None 5 ex_pending of
          (ok, u, s') \<Rightarrow> (if ok then RespondSuccess else RespondNotFound, u, s'))"
    using C9_respond_id_or_dialogId [where U = ex_lower and b = "\<lparr>rb_id = Some (JStr []), rb_dialogId = Some (JStr ''dialog_1''),
                          rb_shouldContinue = True, rb_userInput = ''go'', rb_attachments = None\<rparr>"
        and k = "''dialog_1''" and s = ex_pending and now = 5]
    by simp
  have by_id: "post_respond (Some \<lparr>rb_id = Some (JStr ''dialog_7''), rb_dialogId = Some (JStr ''dialog_1''),
                          rb_shouldContinue = True, rb_userInput = ''go'', rb_attachments = None\<rparr>)
        5 ex_pending =
       (case respondToDialog ''dialog_7'' True ''go'' None 5 ex_pending of
          (ok, u, s') \<Rightarrow> (if ok then RespondSuccess else RespondNotFound, u, s'))"
    using C9_respond_id_or_dialogId [where U = ex_lower and b = "\<lparr>rb_id = Some (JStr ''dialog_7''), rb_dialogId = Some (JStr ''dialog_1''),
                          rb_shouldContinue = True, rb_userInput = ''go'', rb_attachments = None\<rparr>"
        and k = "''dialog_7''" and s = ex_pending and now = 5]
    by simp
  have number: "post_respond (Some \<lparr>rb_id = Some (JNum 0), rb_dialogId = Some (JNum 3),
                          rb_shouldContinue = True, rb_userInput = ''go'', rb_attachments = None\<rparr>)
        5 ex_pending = (RespondNotFound, None, ex_pending)"
    using C9_respond_id_or_dialogId [where U = ex_lower and b = "\<lparr>rb_id = Some (JNum 0), rb_dialogId = Some (JNum 3),
                          rb_shouldContinue = True, rb_userInput = ''go'', rb_attachments = None\<rparr>"
        and s = ex_pending and now = 5]
    by simp
  have ok: "fst (post_respond (Some \<lparr>rb_id = None, rb_dialogId = Some (JStr ''dialog_1''), rb_shouldContinue = True,
                        rb_userInput = ''go'', rb_attachments = None\<rparr>) 5 ex_pending) = RespondSuccess"
    by (simp add: post_respond_def js_or_def ex_pending_eval Let_def)
  show ?thesis using same by_dialogId by_id number ok by blast
qed

section \<open>What a resolution leaves alone\<close>

text \<open>
  Claim C10. A successful resolution of the pending dialog \<open>X\<close>, through \<^verbatim>\<open>respondToDialog\<close>
  or through \<^verbatim>\<open>POST /respond\<close>, changes only what belongs to \<open>X\<close> and its workspace: the
  pending map afterwards is the old one without the key \<open>X\<close>, in the same order, so every
  other id is still mapped to the same unchanged dialog; the history stored under every
  workspace string other than that of \<open>X\<close> is the same; and all counters, the handler and
  the version are the same.
\<close>

theorem C10_resolution_frame:
  assumes "map_of (pendingDialogs s) X = Some p"
    and "s' = snd (snd (respondToDialog X sc ui atts now s))
         \<or> (js_or (rb_id b) (rb_dialogId b) = Some (JStr X)
            \<and> s' = snd (snd (post_respond (Some b) now s)))"
  shows "pendingDialogs s' = filter (\<lambda>(k, d). k \<noteq> X) (pendingDialogs s)
       \<and> (j \<noteq> X \<longrightarrow> map_of (pendingDialogs s') j = map_of (pendingDialogs s) j)
       \<and> (w \<noteq> pd_workspace p \<longrightarrow> dialogHistory s' w = dialogHistory s w)
       \<and> dialogCounts s' = dialogCounts s
       \<and> onDialogRequest s' = onDialogRequest s
       \<and> version s' = version s"
proof -
  have filt: "AList.delete X (pendingDialogs s) = filter (\<lambda>(k, d). k \<noteq> X) (pendingDialogs s)"
    by (simp add: AList.delete_eq case_prod_unfold eq_commute [of X])
  from assms(2) show ?thesis
  proof
    assume s': "s' = snd (snd (respondToDialog X sc ui atts now s))"
    show ?thesis
      unfolding s'
      by (simp add: respondToDialog_present [OF assms(1)] resolve_closure_def filt [symmetric]
          delete_conv')
  next
    assume "js_or (rb_id b) (rb_dialogId b) = Some (JStr X)
            \<and> s' = snd (snd (post_respond (Some b) now s))"
    then have b: "js_or (rb_id b) (rb_dialogId b) = Some (JStr X)"
      and s': "s' = snd (snd (post_respond (Some b) now s))" by simp_all
    show ?thesis
      unfolding s'
      by (simp add: post_respond_present [OF b assms(1)] resolve_closure_def filt [symmetric]
          delete_conv')
  qed
qed

text \<open>Resolving \<open>dialog_1\<close> of \<open>/Proj\<close> while \<open>dialog_2\<close> of \<open>/proj\<close> is pending.\<close>

theorem C10_resolution_frame_witness:
  "map_of (pendingDialogs ex_case_pending) ''dialog_1'' = Some ex_d1
   \<and> pendingDialogs (snd (snd (respondToDialog ''dialog_1'' True ''a'' None 10 ex_case_pending))) =
       [(''dialog_2'', ex_d2)]
   \<and> map_of (pendingDialogs (snd (snd (respondToDialog ''dialog_1'' True ''a'' None 10 ex_case_pending)))) ''dialog_2'' =
       Some ex_d2
   \<and> dialogHistory (snd (snd (respondToDialog ''dialog_1'' True ''a'' None 10 ex_case_pending))) ''/proj'' = None
   \<and> dialogCounts (snd (snd (respondToDialog ''dialog_1'' True ''a'' None 10 ex_case_pending))) ''/proj'' = Some 1
   \<and> pendingDialogs (snd (snd (post_respond (Some (ex_body ''dialog_1'')) 10 ex_case_pending))) =
       [(''dialog_2'', ex_d2)]
   \<and> dialogHistory (snd (snd (post_respond (Some (ex_body ''dialog_1'')) 10 ex_case_pending))) ''/proj'' = None"
proof -
  have pending: "map_of (pendingDialogs ex_case_pending) ''dialog_1'' = Some ex_d1"
    by (simp add: ex_case_pending_eval)
  have body: "js_or (rb_id (ex_body ''dialog_1'')) (rb_dialogId (ex_body ''dialog_1'')) = Some (JStr ''dialog_1'')"
    by (simp add: ex_body_def js_or_def)
  have start: "pendingDialogs ex_case_pending = [(''dialog_1'', ex_d1), (''dialog_2'', ex_d2)]"
    "dialogHistory ex_case_pending ''/proj'' = None"
    "dialogCounts ex_case_pending ''/proj'' = Some 1"
    "pd_workspace ex_d1 = ''/Proj''"
    by (simp_all add: ex_case_pending_eval ex_d1_def)
  show ?thesis
    using pending
      C10_resolution_frame [OF pending, where s' = "snd (snd (respondToDialog ''dialog_1'' True ''a'' None 10 ex_case_pending))"
        and sc = True and ui = "''a''" and atts = None and now = 10 and j = "''dialog_2''" and w = "''/proj''"]
      C10_resolution_frame [OF pending, where s' = "snd (snd (post_respond (Some (ex_body ''dialog_1'')) 10 ex_case_pending))"
        and b = "ex_body ''dialog_1''" and now = 10 and j = "''dialog_2''" and w = "''/proj''"]
      body
    by (simp add: start)
qed

end
